theory Spec2Isabelle
  imports Complex_Main "HOL-Library.Log_Nat"
begin

section \<open>Common conventions\<close>

text \<open>
  The two detector modules \<^verbatim>\<open>lib/enhanced-ai-detector-fixed.py\<close> (the statistics-based
  variant; below "the fixed module") and \<^verbatim>\<open>lib/enhanced-ai-detector.py\<close> (the pipeline
  with replay, EWC and incremental training; below "the pipeline module") are embedded
  side by side.  Tensor entries are modelled as real numbers: a finite float is the real it
  denotes, and comparisons of finite floats agree with the comparisons of those reals.
  Library code that is not part of the repository (the network forward pass, automatic
  differentiation, the optimizers, the random generator, OpenCV's DCT) enters the model as
  function parameters, so every theorem holds for all behaviours of that code.
\<close>

datatype py_error = ValueError | IndexError | KeyError | RuntimeError | OverflowError | ZeroDivisionError

section \<open>Verdict policy of the fixed module\<close>

text \<open>
  \<^verbatim>\<open>TemperatureScaling.forward\<close>: \<^verbatim>\<open>logits / self.temperature\<close>, on one row of two class scores.
\<close>

definition temperature_scaling_forward :: "real \<Rightarrow> real \<times> real \<Rightarrow> real \<times> real" where
  "temperature_scaling_forward temp z = (fst z / temp, snd z / temp)"

text \<open>\<^verbatim>\<open>F.softmax(calibrated_logits, dim=1)\<close> on one row of two class scores.\<close>

definition softmax :: "real \<times> real \<Rightarrow> real \<times> real" where
  "softmax z = (exp (fst z) / (exp (fst z) + exp (snd z)),
                exp (snd z) / (exp (fst z) + exp (snd z)))"

text \<open>
  \<^verbatim>\<open>torch.max(probabilities, 1)\<close> on one row: the largest entry and its index; among equal
  entries the first index is returned.
\<close>

definition torch_max :: "real \<times> real \<Rightarrow> real \<times> nat" where
  "torch_max p = (if fst p < snd p then (snd p, 1) else (fst p, 0))"

record uresult =
  prediction :: string
  confidence :: real
  synthetic_probability :: real
  real_probability :: real
  is_uncertain :: bool
  logits :: "real \<times> real"
  calibrated_logits :: "real \<times> real"

text \<open>
  The body of the \<^verbatim>\<open>for i in range(x.size(0))\<close> loop of
  \<^verbatim>\<open>EnhancedAIDetector.predict_with_uncertainty\<close>: the result dictionary of one image, from
  its probability row, its raw and its calibrated logits.
\<close>

definition result_row :: "real \<Rightarrow> real \<times> real \<Rightarrow> real \<times> real \<Rightarrow> real \<times> real \<Rightarrow> uresult" where
  "result_row uncertainty_threshold lg cal probabilities =
     (let max_prob = fst (torch_max probabilities);
          pred_class = snd (torch_max probabilities);
          uncertain = (max_prob < uncertainty_threshold)
      in \<lparr> prediction = (if uncertain then ''UNCERTAIN''
                          else if pred_class = 1 then ''synthetic'' else ''real''),
           confidence = max_prob,
           synthetic_probability = snd probabilities,
           real_probability = fst probabilities,
           is_uncertain = uncertain,
           logits = lg,
           calibrated_logits = cal \<rparr>)"

text \<open>
  The detector object of the fixed module, as far as inference reads or writes it:
  the weights (of an arbitrary type), the train/eval mode flag that \<^verbatim>\<open>self.eval()\<close> clears,
  the temperature, the uncertainty threshold, and the state of the random generator that
  dropout draws from.
\<close>

record ('p, 'g) detector =
  weights :: 'p
  training :: bool
  temperature :: real
  uncertainty_threshold :: real
  generator :: 'g

text \<open>
  The forward pass of the network is library code (backbone, dropout, batch
  normalisation): a parameter that maps the weights, the mode flag, the state of the random
  generator and the batch to one row of logits per image and the next state of the
  generator.  Its contract in evaluation mode is that the logits do not depend on the
  random generator (dropout is the identity and batch normalisation uses its stored
  statistics); in training mode they may.
\<close>

type_synonym ('p, 'g, 'x) network = "'p \<Rightarrow> bool \<Rightarrow> 'g \<Rightarrow> 'x \<Rightarrow> (real \<times> real) list \<times> 'g"

definition eval_mode_contract :: "('p, 'g, 'x) network \<Rightarrow> bool" where
  "eval_mode_contract net \<longleftrightarrow> (\<forall>w g g' x. fst (net w False g x) = fst (net w False g' x))"

text \<open>
  \<^verbatim>\<open>EnhancedAIDetector.predict_with_uncertainty\<close>: \<^verbatim>\<open>self.eval()\<close>, then the forward pass in
  the mode the detector is in, temperature scaling when asked for, softmax, and one result
  per image.  The function returns the list of results and the detector after the call.
\<close>

definition predict_with_uncertainty ::
  "('p, 'g, 'x) network \<Rightarrow> ('p, 'g) detector \<Rightarrow> 'x \<Rightarrow> bool \<Rightarrow> uresult list \<times> ('p, 'g) detector" where
  "predict_with_uncertainty net self x apply_temperature =
     (let self' = self\<lparr>training := False\<rparr>;
          lgs = fst (net (weights self') (training self') (generator self') x);
          g' = snd (net (weights self') (training self') (generator self') x);
          cals = (if apply_temperature
                  then map (temperature_scaling_forward (temperature self')) lgs
                  else lgs);
          probabilities = map softmax cals
      in (map (\<lambda>i. result_row (uncertainty_threshold self') (lgs ! i) (cals ! i) (probabilities ! i))
            [0..<length lgs],
          self'\<lparr>generator := g'\<rparr>))"

section \<open>Temperature calibration\<close>

text \<open>
  \<^verbatim>\<open>nn.CrossEntropyLoss\<close> / \<^verbatim>\<open>F.cross_entropy\<close> with mean reduction, on rows of two class
  scores and labels 0 or 1: the closure that the optimizer evaluates.
\<close>

definition cross_entropy :: "(real \<times> real) list \<Rightarrow> nat list \<Rightarrow> real" where
  "cross_entropy zs labels =
     (\<Sum>(z, y) \<leftarrow> zip zs labels. - ln (if y = 1 then snd (softmax z) else fst (softmax z)))
       / real (length zs)"

text \<open>
  \<^verbatim>\<open>torch.optim.LBFGS([temperature], lr, max_iter).step(closure)\<close> is library code: a
  parameter that maps the closure (the loss as a function of the temperature), the learning
  rate, the iteration bound and the current temperature to the temperature it leaves behind.
\<close>

type_synonym optimizer = "(real \<Rightarrow> real) \<Rightarrow> real \<Rightarrow> nat \<Rightarrow> real \<Rightarrow> real"

text \<open>\<^verbatim>\<open>torch.clamp(x, min=lo, max=hi)\<close> on a finite entry.\<close>

definition torch_clamp :: "real \<Rightarrow> real \<Rightarrow> real \<Rightarrow> real" where
  "torch_clamp x lo hi = min (max x lo) hi"

text \<open>
  \<^verbatim>\<open>TemperatureScaling.calibrate\<close> of the fixed module: one optimizer step on the closure,
  then the clamp.  The result is the temperature stored in the module, which is also the
  value returned.
\<close>

definition calibrate ::
  "optimizer \<Rightarrow> real \<Rightarrow> (real \<times> real) list \<Rightarrow> nat list \<Rightarrow> nat \<Rightarrow> real \<Rightarrow> real" where
  "calibrate lbfgs temp lgs labels max_iter lr =
     torch_clamp
       (lbfgs (\<lambda>t. cross_entropy (map (temperature_scaling_forward t) lgs) labels) lr max_iter temp)
       (1 / 10) 10"

section \<open>Grad-CAM\<close>

text \<open>
  A two-dimensional array and a channel-height-width tensor, by their shape and an entry
  function; only entries inside the shape are meaningful.
\<close>

record ndarray2 =
  rows :: nat
  cols :: nat
  ent :: "nat \<Rightarrow> nat \<Rightarrow> real"

record tensor3 =
  chans :: nat
  height :: nat
  width :: nat
  val :: "nat \<Rightarrow> nat \<Rightarrow> nat \<Rightarrow> real"

text \<open>The entries of an array in row-major order (\<^verbatim>\<open>flatten()\<close>).\<close>

definition entries :: "ndarray2 \<Rightarrow> real list" where
  "entries m = concat (map (\<lambda>i. map (ent m i) [0..<cols m]) [0..<rows m])"

text \<open>\<^verbatim>\<open>gradients.mean(dim=(1, 2))\<close>: the spatial mean of one channel.\<close>

definition channel_mean :: "tensor3 \<Rightarrow> nat \<Rightarrow> real" where
  "channel_mean g c =
     (\<Sum>i \<leftarrow> [0..<height g]. \<Sum>j \<leftarrow> [0..<width g]. val g c i j) / real (height g * width g)"

text \<open>
  The loop \<^verbatim>\<open>for i, w in enumerate(weights): cam += w * activations[i]\<close>, started from
  \<^verbatim>\<open>torch.zeros(activations.shape[1:])\<close>.
\<close>

definition weighted_sum :: "tensor3 \<Rightarrow> tensor3 \<Rightarrow> ndarray2" where
  "weighted_sum g a =
     \<lparr> rows = height a, cols = width a,
       ent = (\<lambda>i j. \<Sum>c \<leftarrow> [0..<chans g]. channel_mean g c * val a c i j) \<rparr>"

text \<open>\<^verbatim>\<open>F.relu\<close>, entry by entry.\<close>

definition relu :: "ndarray2 \<Rightarrow> ndarray2" where
  "relu m = m\<lparr>ent := (\<lambda>i j. max 0 (ent m i j))\<rparr>"

text \<open>\<^verbatim>\<open>cam.max()\<close> / \<^verbatim>\<open>torch.max(heatmap)\<close>: raises on a tensor without entries.\<close>

definition array_max :: "ndarray2 \<Rightarrow> py_error + real" where
  "array_max m = (if entries m = [] then Inl RuntimeError else Inr (Max (set (entries m))))"

definition zeros :: "nat \<Rightarrow> nat \<Rightarrow> ndarray2" where
  "zeros h w = \<lparr> rows = h, cols = w, ent = (\<lambda>i j. 0) \<rparr>"

text \<open>
  \<^verbatim>\<open>GradCAM.generate_cam\<close> of the fixed module, from the two tensors the hooks captured for
  the first image of the batch: \<open>gradients\<close> is \<open>None\<close> when the backward hook never ran.
  Indexing \<^verbatim>\<open>activations[i]\<close> raises when there are more gradient channels than activation
  channels.  The map is returned through \<^verbatim>\<open>cam.cpu().numpy()\<close>, with no \<^verbatim>\<open>detach()\<close>, which
  raises when the map is part of a computation graph, that is when the captured activation
  requires a gradient: the flag \<open>act_requires_grad\<close>.
\<close>

definition generate_cam :: "tensor3 option \<Rightarrow> tensor3 \<Rightarrow> bool \<Rightarrow> py_error + ndarray2" where
  "generate_cam gradients activations act_requires_grad =
     (case gradients of
        None \<Rightarrow> Inr (zeros 224 224)
      | Some g \<Rightarrow>
          if chans activations < chans g then Inl IndexError
          else let cam = relu (weighted_sum g activations)
               in (case array_max cam of
                     Inl e \<Rightarrow> Inl e
                   | Inr m \<Rightarrow>
                       let cam' = (if 0 < m then cam\<lparr>ent := (\<lambda>i j. ent cam i j / m)\<rparr> else cam)
                       in if act_requires_grad then Inl RuntimeError else Inr cam'))"

text \<open>
  A float that need not be finite: the quotient of two finite floats is not a number when
  both are zero and infinite when only the divisor is.
\<close>

datatype fval = Finite real | Infinite | NaN

definition float_div :: "real \<Rightarrow> real \<Rightarrow> fval" where
  "float_div x y = (if y \<noteq> 0 then Finite (x / y) else if x = 0 then NaN else Infinite)"

record farray2 =
  frows :: nat
  fcols :: nat
  fat :: "nat \<Rightarrow> nat \<Rightarrow> fval"

text \<open>
  \<^verbatim>\<open>GradCAMVisualizer.generate_heatmap\<close> of the pipeline module, from the captured tensors of
  the first image: the same weighted sum and rectifier, then
  \<^verbatim>\<open>heatmap / torch.max(heatmap)\<close> with no test of the maximum.
\<close>

definition generate_heatmap :: "tensor3 \<Rightarrow> tensor3 \<Rightarrow> py_error + farray2" where
  "generate_heatmap gradients activations =
     (if chans activations < chans gradients then Inl IndexError
      else let heatmap = relu (weighted_sum gradients activations)
           in case array_max heatmap of
                Inl e \<Rightarrow> Inl e
              | Inr m \<Rightarrow> Inr \<lparr> frows = rows heatmap, fcols = cols heatmap,
                               fat = (\<lambda>i j. float_div (ent heatmap i j) m) \<rparr>)"

section \<open>Prediction of the pipeline module\<close>

record presult =
  pl_prediction :: string
  pl_confidence :: real
  is_certain :: bool
  prob_real :: real
  prob_ai_generated :: real
  heatmap :: "farray2 option"

text \<open>
  The result dictionary that \<^verbatim>\<open>EnhancedAIDetectorPipeline.predict\<close> builds from the
  probability row: \<^verbatim>\<open>torch.max(probs)\<close>, \<^verbatim>\<open>torch.argmax(probs, dim=1)\<close>, the comparison
  \<^verbatim>\<open>confidence >= self.confidence_threshold\<close> and the label chosen from the arg-max alone.
  The heat map is added afterwards, when one is requested.
\<close>

definition predict_result :: "real \<Rightarrow> real \<times> real \<Rightarrow> presult" where
  "predict_result confidence_threshold probs =
     (let conf = fst (torch_max probs);
          pred = snd (torch_max probs)
      in \<lparr> pl_prediction = (if pred = 1 then ''ai_generated'' else ''real''),
           pl_confidence = conf,
           is_certain = (confidence_threshold \<le> conf),
           prob_real = fst probs,
           prob_ai_generated = snd probs,
           heatmap = None \<rparr>)"

section \<open>Elastic weight consolidation\<close>

text \<open>
  One entry of \<^verbatim>\<open>model.named_parameters()\<close>: the name, the \<^verbatim>\<open>requires_grad\<close> flag and the
  entries of the tensor, flattened.
\<close>

record param =
  pname :: string
  requires_grad :: bool
  pdata :: "real list"

record ewc_state =
  lambda_ewc :: real
  params :: "string \<rightharpoonup> real list"
  fisher :: "string \<rightharpoonup> real list"

text \<open>
  The dictionary comprehension \<^verbatim>\<open>{n: f(p) for n, p in model.named_parameters() if p.requires_grad}\<close>:
  entries are stored from left to right, a later entry replacing an earlier one of the same
  name.
\<close>

definition dict_comp :: "(param \<Rightarrow> real list) \<Rightarrow> param list \<Rightarrow> (string \<rightharpoonup> real list)" where
  "dict_comp f ps = fold (\<lambda>p m. if requires_grad p then m(pname p \<mapsto> f p) else m) ps Map.empty"

text \<open>\<^verbatim>\<open>torch.zeros_like(p)\<close>.\<close>

definition zeros_like :: "param \<Rightarrow> real list" where
  "zeros_like p = replicate (length (pdata p)) 0"

text \<open>\<^verbatim>\<open>ElasticWeightConsolidation.__init__\<close>, from the model's named parameters.\<close>

definition ewc_init :: "param list \<Rightarrow> real \<Rightarrow> ewc_state" where
  "ewc_init named lam =
     \<lparr> lambda_ewc = lam, params = dict_comp pdata named, fisher = dict_comp zeros_like named \<rparr>"

text \<open>
  The loop of \<^verbatim>\<open>ElasticWeightConsolidation.penalty\<close> over the current named parameters.
  \<^verbatim>\<open>self.params[n]\<close> raises \<^verbatim>\<open>KeyError\<close> for a name without snapshot.  Tensors are flattened
  here, so operands with a different number of entries stand for operands of different
  shape, which torch does not combine entry by entry: the model reports \<^verbatim>\<open>RuntimeError\<close>.
\<close>

fun penalty_loop :: "ewc_state \<Rightarrow> param list \<Rightarrow> real \<Rightarrow> py_error + real" where
  "penalty_loop e [] loss = Inr loss"
| "penalty_loop e (p # ps) loss =
     (case fisher e (pname p) of
        None \<Rightarrow> penalty_loop e ps loss
      | Some f \<Rightarrow>
          if \<not> requires_grad p then penalty_loop e ps loss
          else (case params e (pname p) of
                  None \<Rightarrow> Inl KeyError
                | Some snap \<Rightarrow>
                    if length snap \<noteq> length (pdata p) \<or> length f \<noteq> length snap then Inl RuntimeError
                    else penalty_loop e ps
                           (loss + sum_list (map2 (*) f (map (\<lambda>d. d ^ 2) (map2 (-) (pdata p) snap))))))"

definition penalty :: "ewc_state \<Rightarrow> param list \<Rightarrow> py_error + real" where
  "penalty e named =
     (case penalty_loop e named 0 of Inl err \<Rightarrow> Inl err | Inr loss \<Rightarrow> Inr (lambda_ewc e * loss))"

text \<open>
  One pass of the batch loop of \<^verbatim>\<open>compute_fisher\<close>: \<open>gs\<close> holds \<^verbatim>\<open>p.grad\<close> of each named
  parameter after the backward pass (\<open>None\<close> where no gradient was produced), and the square
  of each gradient is added to the accumulator of its parameter.
\<close>

fun fisher_accumulate ::
  "(string \<rightharpoonup> real list) \<Rightarrow> (param \<times> real list option) list \<Rightarrow> py_error + (string \<rightharpoonup> real list)" where
  "fisher_accumulate fi [] = Inr fi"
| "fisher_accumulate fi ((p, None) # rest) = fisher_accumulate fi rest"
| "fisher_accumulate fi ((p, Some gr) # rest) =
     (if \<not> requires_grad p then fisher_accumulate fi rest
      else (case fi (pname p) of
              None \<Rightarrow> Inl KeyError
            | Some acc \<Rightarrow>
                if length acc \<noteq> length gr then Inl RuntimeError
                else fisher_accumulate (fi(pname p \<mapsto> map2 (+) acc (map (\<lambda>d. d ^ 2) gr))) rest))"

fun fisher_batches ::
  "('b \<Rightarrow> real list option list) \<Rightarrow> param list \<Rightarrow> (string \<rightharpoonup> real list) \<Rightarrow> 'b list
     \<Rightarrow> py_error + (string \<rightharpoonup> real list)" where
  "fisher_batches grads named fi [] = Inr fi"
| "fisher_batches grads named fi (b # bs) =
     (case fisher_accumulate fi (zip named (grads b)) of
        Inl err \<Rightarrow> Inl err
      | Inr fi' \<Rightarrow> fisher_batches grads named fi' bs)"

text \<open>
  \<^verbatim>\<open>ElasticWeightConsolidation.compute_fisher\<close>.  The parameter \<open>grads\<close> is the forward pass,
  the cross-entropy loss and the backward pass of the model on one batch.  The accumulators
  start from zero, are summed over the batches and divided by the number of batches; the
  result replaces the previous Fisher dictionary.  (With no batch at all torch would store
  entries that are not numbers; the loaders built by the pipeline always have a batch.)
\<close>

definition compute_fisher ::
  "('b \<Rightarrow> real list option list) \<Rightarrow> ewc_state \<Rightarrow> param list \<Rightarrow> 'b list \<Rightarrow> py_error + ewc_state" where
  "compute_fisher grads e named dataloader =
     (case fisher_batches grads named (dict_comp zeros_like named) dataloader of
        Inl err \<Rightarrow> Inl err
      | Inr fi \<Rightarrow>
          Inr (e\<lparr>fisher := (\<lambda>n. map_option (map (\<lambda>v. v / real (length dataloader))) (fi n))\<rparr>))"

section \<open>Replay buffer of the pipeline module\<close>

record 'i sample =
  image :: 'i
  sm_prediction :: int
  sm_confidence :: real
  ground_truth :: "int option"
  user_feedback :: "int option"
  timestamp :: nat

record 'i replay_buffer =
  max_size :: nat
  buffer :: "'i sample list"

text \<open>
  \<^verbatim>\<open>deque(maxlen=m).append(x)\<close>: the element is added on the right, and elements are
  discarded from the left while the deque is longer than \<open>m\<close>.
\<close>

definition deque_append :: "nat \<Rightarrow> 'a list \<Rightarrow> 'a \<Rightarrow> 'a list" where
  "deque_append m b x = drop (length (b @ [x]) - m) (b @ [x])"

text \<open>
  \<^verbatim>\<open>ReplayBuffer.add\<close>: the \<^verbatim>\<open>timestamp\<close> entry of the new sample is \<^verbatim>\<open>len(self.buffer)\<close>,
  read before the sample is appended.
\<close>

definition add ::
  "'i replay_buffer \<Rightarrow> 'i \<Rightarrow> int \<Rightarrow> real \<Rightarrow> int option \<Rightarrow> int option \<Rightarrow> 'i replay_buffer" where
  "add self img pred conf gt fb =
     self\<lparr>buffer := deque_append (max_size self) (buffer self)
              \<lparr> image = img, sm_prediction = pred, sm_confidence = conf,
                ground_truth = gt, user_feedback = fb,
                timestamp = length (buffer self) \<rparr>\<rparr>"

definition get_size :: "'i replay_buffer \<Rightarrow> nat" where
  "get_size self = length (buffer self)"

text \<open>
  The buffer of an object just constructed: \<^verbatim>\<open>ReplayBuffer(max_size)\<close>.
\<close>

definition new_buffer :: "nat \<Rightarrow> 'i replay_buffer" where
  "new_buffer m = \<lparr> max_size = m, buffer = [] \<rparr>"

subsection \<open>The quota \<^verbatim>\<open>int(batch_size * 0.7)\<close>\<close>

text \<open>
  The product is a product of double-precision floats, so the quota is not the integer part
  of seven tenths of the batch size: \<^verbatim>\<open>int(90 * 0.7)\<close> is 62.  The model is exact.
  \<open>round53 n\<close> is the natural number nearest to \<open>n\<close> with at most 53 significant bits,
  ties going to the even significand; conversion of an integer to a float and the rounding
  of a product are instances of it.  The literal \<^verbatim>\<open>0.7\<close> denotes 6305039478318694 / 2^53.
  Converting an integer whose float would reach 2^1024 raises \<^verbatim>\<open>OverflowError\<close>, and
  \<^verbatim>\<open>int\<close> of a float discards the fraction.
\<close>

definition round53 :: "nat \<Rightarrow> nat" where
  "round53 n =
     (let k = floorlog 2 n
      in if k \<le> 53 then n
         else let s = k - 53; q = n div 2 ^ s; r = n mod 2 ^ s
              in (if 2 ^ (s - 1) < r \<or> (r = 2 ^ (s - 1) \<and> odd q) then q + 1 else q) * 2 ^ s)"

definition int_times_0_7 :: "int \<Rightarrow> py_error + int" where
  "int_times_0_7 b =
     (let f = round53 (nat \<bar>b\<bar>)
      in if 2 ^ 1024 \<le> f then Inl OverflowError
         else Inr (sgn b * int (round53 (f * 6305039478318694) div 2 ^ 53)))"

subsection \<open>Sampling\<close>

text \<open>
  \<^verbatim>\<open>np.random.choice(n, k, replace=False)\<close> is library code: a parameter that maps the state
  of the generator, \<open>n\<close> and \<open>k\<close> to the chosen indices and the next state.  Its contract,
  for \<open>k \<le> n\<close>, is that it returns \<open>k\<close> different indices below \<open>n\<close>.
\<close>

type_synonym 'g chooser = "'g \<Rightarrow> nat \<Rightarrow> nat \<Rightarrow> nat list \<times> 'g"

definition valid_choice :: "nat \<Rightarrow> nat \<Rightarrow> nat list \<Rightarrow> bool" where
  "valid_choice n k idx \<longleftrightarrow> length idx = k \<and> distinct idx \<and> list_all (\<lambda>i. i < n) idx"

text \<open>
  \<^verbatim>\<open>ReplayBuffer.sample\<close> returns the stored dictionaries themselves; to tell two stored
  samples with equal contents apart, the model pairs every sample with its position in the
  buffer.  \<open>feedback_samples\<close> and \<open>no_feedback_samples\<close> are the two list comprehensions of
  the method.
\<close>

definition tagged :: "'i replay_buffer \<Rightarrow> (nat \<times> 'i sample) list" where
  "tagged self = zip [0..<length (buffer self)] (buffer self)"

definition feedback_samples :: "'i replay_buffer \<Rightarrow> (nat \<times> 'i sample) list" where
  "feedback_samples self = filter (\<lambda>(k, s). user_feedback s \<noteq> None) (tagged self)"

definition no_feedback_samples :: "'i replay_buffer \<Rightarrow> (nat \<times> 'i sample) list" where
  "no_feedback_samples self = filter (\<lambda>(k, s). user_feedback s = None) (tagged self)"

text \<open>
  The idiom \<^verbatim>\<open>indices = np.random.choice(len(xs), k, replace=False)\<close> followed by
  \<^verbatim>\<open>selected.extend([xs[i] for i in indices])\<close>.
\<close>

definition pick :: "'g chooser \<Rightarrow> 'a list \<Rightarrow> nat \<Rightarrow> 'g \<Rightarrow> 'a list \<times> 'g" where
  "pick choice xs k g = (let (idx, g') = choice g (length xs) k in (map (\<lambda>i. xs ! i) idx, g'))"

text \<open>
  \<^verbatim>\<open>ReplayBuffer.sample\<close>, with the positions kept.  \<open>sample\<close> below forgets the positions.
\<close>

definition sample_tagged ::
  "'g chooser \<Rightarrow> 'i replay_buffer \<Rightarrow> int \<Rightarrow> 'g \<Rightarrow> py_error + ((nat \<times> 'i sample) list \<times> 'g)" where
  "sample_tagged choice self batch_size g =
     (if int (length (buffer self)) < batch_size then Inr (tagged self, g)
      else (case int_times_0_7 batch_size of
              Inl err \<Rightarrow> Inl err
            | Inr quota \<Rightarrow>
                let feedback_count = min quota (int (length (feedback_samples self)));
                    no_feedback_count = batch_size - feedback_count;
                    (sel1, g1) =
                       (if 0 < feedback_count
                        then pick choice (feedback_samples self) (nat feedback_count) g
                        else ([], g));
                    (sel2, g2) =
                       (if 0 < no_feedback_count \<and> no_feedback_samples self \<noteq> []
                        then pick choice (no_feedback_samples self)
                               (nat (min no_feedback_count (int (length (no_feedback_samples self))))) g1
                        else ([], g1))
                in Inr (sel1 @ sel2, g2)))"

definition sample ::
  "'g chooser \<Rightarrow> 'i replay_buffer \<Rightarrow> int \<Rightarrow> 'g \<Rightarrow> py_error + ('i sample list \<times> 'g)" where
  "sample choice self batch_size g =
     (case sample_tagged choice self batch_size g of
        Inl err \<Rightarrow> Inl err
      | Inr (sel, g') \<Rightarrow> Inr (map snd sel, g'))"

section \<open>The pipeline\<close>

text \<open>
  The model object of the pipeline module: the named parameters of the backbone, the
  frequency extractor, the fusion layers and the classifier, the temperature of the
  \<^verbatim>\<open>TemperatureScaling\<close> submodule (registered last, and trainable), and the train/eval mode.
\<close>

record pmodel =
  layers :: "param list"
  pm_temperature :: real
  pm_training :: bool

definition named_parameters :: "pmodel \<Rightarrow> param list" where
  "named_parameters m =
     layers m @ [\<lparr> pname = ''temperature_scaling.temperature'', requires_grad = True,
                   pdata = [pm_temperature m] \<rparr>]"

text \<open>What the module-level logger receives; numbers inside a message are kept as numbers.\<close>

datatype log_entry =
    LogWarning string
  | LogInfo string
  | LogStart nat
  | LogEpoch nat int real
  | LogTemperature real

record ('i, 'o, 'g) pipeline =
  model :: pmodel
  opt_state :: 'o
  scheduler_epoch :: nat
  confidence_threshold :: real
  replay_buffer :: "'i replay_buffer"
  ewc :: "ewc_state option"
  rng :: 'g
  logged :: "log_entry list"

text \<open>
  The library code the pipeline calls.  \<open>val_transform\<close> is the deterministic preprocessing
  (resize, normalise), \<open>train_transform\<close> the augmenting one (random crop, flip, compression
  and noise), which draws from the random generator.  \<open>forward\<close> is the forward pass of the
  model on one image, in the mode the model is in, with the state of the random generator
  that dropout draws from.  \<open>cam_hooks\<close> is the forward and backward pass under the Grad-CAM
  hooks (the captured gradient and activation, or the exception it raises).  Then the random
  choice, \<^verbatim>\<open>torch.randn\<close>, the batches a \<^verbatim>\<open>DataLoader\<close> yields (or the exception of its
  constructor), the per-parameter gradients of the cross-entropy loss on a batch, one
  training step (forward pass in training mode, focal loss plus EWC penalty, backward pass,
  AdamW update; it yields the optimizer state, the model and \<^verbatim>\<open>total_loss.item()\<close>), and
  L-BFGS.
\<close>

record ('r, 'i, 'o, 'g) torch =
  val_transform :: "'r \<Rightarrow> 'i"
  train_transform :: "'g \<Rightarrow> 'r \<Rightarrow> 'i \<times> 'g"
  forward :: "pmodel \<Rightarrow> 'g \<Rightarrow> 'i \<Rightarrow> (real \<times> real) \<times> 'g"
  cam_hooks :: "pmodel \<Rightarrow> 'g \<Rightarrow> 'i \<Rightarrow> nat \<Rightarrow> (py_error + tensor3 \<times> tensor3) \<times> 'g"
  choice :: "'g chooser"
  randn :: "'g \<Rightarrow> 'i list \<times> 'g"
  loader :: "'g \<Rightarrow> ('i \<times> int) list \<Rightarrow> int \<Rightarrow> bool \<Rightarrow> py_error + ('i \<times> int) list list \<times> 'g"
  grads :: "pmodel \<Rightarrow> ('i \<times> int) list \<Rightarrow> real list option list"
  train_step :: "'o \<Rightarrow> pmodel \<Rightarrow> ewc_state option \<Rightarrow> ('i \<times> int) list \<Rightarrow> py_error + 'o \<times> pmodel \<times> real"
  lbfgs :: optimizer

text \<open>
  The contract of the library in evaluation mode: neither the logits nor what the Grad-CAM
  pass captures depend on the random generator.
\<close>

definition eval_contract :: "('r, 'i, 'o, 'g) torch \<Rightarrow> bool" where
  "eval_contract tc \<longleftrightarrow>
     (\<forall>m g g' i. fst (forward tc (m\<lparr>pm_training := False\<rparr>) g i)
                   = fst (forward tc (m\<lparr>pm_training := False\<rparr>) g' i))
     \<and> (\<forall>m g g' i c. fst (cam_hooks tc (m\<lparr>pm_training := False\<rparr>) g i c)
                   = fst (cam_hooks tc (m\<lparr>pm_training := False\<rparr>) g' i c))"

text \<open>
  \<^verbatim>\<open>EnhancedAIDetectorPipeline.preprocess_image\<close>: the augmenting transform for training, the
  deterministic one otherwise.
\<close>

definition preprocess_image :: "('r, 'i, 'o, 'g) torch \<Rightarrow> 'r \<Rightarrow> bool \<Rightarrow> 'g \<Rightarrow> 'i \<times> 'g" where
  "preprocess_image tc img for_training g =
     (if for_training then train_transform tc g img else (val_transform tc img, g))"

text \<open>
  \<^verbatim>\<open>EnhancedAIDetectorPipeline.predict\<close>: evaluation mode, preprocessing with
  \<^verbatim>\<open>training=False\<close>, forward pass, temperature scaling, softmax, the result dictionary, the
  heat map when requested, and the new entry of the replay buffer.  An exception leaves no
  result.
\<close>

definition predict ::
  "('r, 'i, 'o, 'g) torch \<Rightarrow> ('i, 'o, 'g) pipeline \<Rightarrow> 'r \<Rightarrow> bool
     \<Rightarrow> py_error + presult \<times> ('i, 'o, 'g) pipeline" where
  "predict tc self img return_heatmap =
     (let m = (model self)\<lparr>pm_training := False\<rparr>;
          input_tensor = fst (preprocess_image tc img False (rng self));
          g1 = snd (preprocess_image tc img False (rng self));
          lg = fst (forward tc m g1 input_tensor);
          g2 = snd (forward tc m g1 input_tensor);
          cal = temperature_scaling_forward (pm_temperature m) lg;
          probs = softmax cal;
          conf = fst (torch_max probs);
          pred = snd (torch_max probs);
          result = predict_result (confidence_threshold self) probs;
          g3 = (if return_heatmap then snd (cam_hooks tc m g2 input_tensor pred) else g2)
      in (case (if return_heatmap
                then (case fst (cam_hooks tc m g2 input_tensor pred) of
                        Inl err \<Rightarrow> Inl err
                      | Inr (gr, act) \<Rightarrow>
                          (case generate_heatmap gr act of Inl err \<Rightarrow> Inl err | Inr h \<Rightarrow> Inr (Some h)))
                else Inr None) of
            Inl err \<Rightarrow> Inl err
          | Inr h \<Rightarrow>
              Inr (result\<lparr>heatmap := h\<rparr>,
                   self\<lparr>model := m, rng := g3,
                        replay_buffer := add (replay_buffer self) input_tensor (int pred) conf None None\<rparr>)))"

text \<open>
  The loop of \<^verbatim>\<open>calibrate_temperature\<close> that collects the logits: the forward pass on every
  image of every validation batch, in order.
\<close>

fun forward_batch ::
  "('r, 'i, 'o, 'g) torch \<Rightarrow> pmodel \<Rightarrow> 'g \<Rightarrow> 'i list \<Rightarrow> (real \<times> real) list \<times> 'g" where
  "forward_batch tc m g [] = ([], g)"
| "forward_batch tc m g (i # is) =
     (let z = fst (forward tc m g i);
          r = forward_batch tc m (snd (forward tc m g i)) is
      in (z # fst r, snd r))"

fun collect_logits ::
  "('r, 'i, 'o, 'g) torch \<Rightarrow> pmodel \<Rightarrow> 'g \<Rightarrow> ('i list \<times> nat list) list \<Rightarrow> (real \<times> real) list \<times> 'g" where
  "collect_logits tc m g [] = ([], g)"
| "collect_logits tc m g (batch # batches) =
     (let b = forward_batch tc m g (fst batch);
          r = collect_logits tc m (snd b) batches
      in (fst b @ fst r, snd r))"

text \<open>
  \<^verbatim>\<open>EnhancedAIDetectorPipeline.calibrate_temperature\<close>: the logits of the validation batches
  are collected in evaluation mode (\<^verbatim>\<open>torch.cat\<close> raises on an empty list), L-BFGS takes one
  step on the temperature with learning rate 0.01 and at most 50 iterations, and the
  temperature it leaves is logged.
\<close>

definition calibrate_temperature ::
  "('r, 'i, 'o, 'g) torch \<Rightarrow> ('i, 'o, 'g) pipeline \<Rightarrow> ('i list \<times> nat list) list
     \<Rightarrow> py_error + ('i, 'o, 'g) pipeline" where
  "calibrate_temperature tc self validation_data =
     (let m = (model self)\<lparr>pm_training := False\<rparr>
      in if validation_data = [] then Inl RuntimeError
         else
           let all_logits = fst (collect_logits tc m (rng self) validation_data);
               all_labels = concat (map snd validation_data);
               t' = lbfgs tc (\<lambda>t. cross_entropy (map (temperature_scaling_forward t) all_logits) all_labels)
                      (1 / 100) 50 (pm_temperature m)
           in Inr (self\<lparr>model := m\<lparr>pm_temperature := t'\<rparr>,
                        rng := snd (collect_logits tc m (rng self) validation_data),
                        logged := logged self @ [LogTemperature t']\<rparr>))"

subsection \<open>Incremental training\<close>

text \<open>The samples that carry a ground truth, as pairs of image and label.\<close>

definition labeled_of :: "'i sample list \<Rightarrow> ('i \<times> int) list" where
  "labeled_of samples = List.map_filter (\<lambda>s. map_option (Pair (image s)) (ground_truth s)) samples"

text \<open>
  \<^verbatim>\<open>_create_dataloader_from_samples\<close>: without any labelled sample a loader over two random
  images with the labels 0 and 1 and batch size 2; otherwise a shuffling loader over the
  labelled samples with the given batch size.  The result is the list of batches.
\<close>

definition create_dataloader_from_samples ::
  "('r, 'i, 'o, 'g) torch \<Rightarrow> 'i sample list \<Rightarrow> int \<Rightarrow> 'g \<Rightarrow> py_error + ('i \<times> int) list list \<times> 'g" where
  "create_dataloader_from_samples tc samples batch_size g =
     (let labeled_samples = labeled_of samples
      in if labeled_samples = []
         then (let (dummy_images, g') = randn tc g in loader tc g' (zip dummy_images [0, 1]) 2 False)
         else loader tc g labeled_samples batch_size True)"

text \<open>
  The block \<^verbatim>\<open>if self.ewc is None\<close> of \<^verbatim>\<open>incremental_train\<close>: up to 100 samples are drawn,
  a loader is built from them, the guard is constructed from the model (with the default
  \<^verbatim>\<open>lambda_ewc\<close> of 1000) and its Fisher information is computed, which puts the model into
  evaluation mode.
\<close>

definition initialize_ewc ::
  "('r, 'i, 'o, 'g) torch \<Rightarrow> ('i, 'o, 'g) pipeline \<Rightarrow> int \<Rightarrow> py_error + ('i, 'o, 'g) pipeline" where
  "initialize_ewc tc self batch_size =
     (case sample (choice tc) (replay_buffer self) (min 100 (int (get_size (replay_buffer self)))) (rng self) of
        Inl err \<Rightarrow> Inl err
      | Inr (samples, g1) \<Rightarrow>
          (case create_dataloader_from_samples tc samples batch_size g1 of
             Inl err \<Rightarrow> Inl err
           | Inr (fisher_loader, g2) \<Rightarrow>
               let m = (model self)\<lparr>pm_training := False\<rparr>
               in (case compute_fisher (grads tc m) (ewc_init (named_parameters (model self)) 1000)
                          (named_parameters m) fisher_loader of
                     Inl err \<Rightarrow> Inl err
                   | Inr e \<Rightarrow> Inr (self\<lparr>model := m, ewc := Some e, rng := g2\<rparr>))))"

text \<open>
  The inner loop \<^verbatim>\<open>for _ in range(min(10, size // batch_size))\<close>, \<open>k\<close> iterations of it, on
  the pipeline, the running \<^verbatim>\<open>epoch_loss\<close> and \<^verbatim>\<open>num_batches\<close>: a batch is drawn, the samples
  without ground truth are dropped, and a batch with fewer than two labelled samples is
  skipped.
\<close>

fun train_batches ::
  "('r, 'i, 'o, 'g) torch \<Rightarrow> int \<Rightarrow> nat \<Rightarrow> ('i, 'o, 'g) pipeline \<times> real \<times> nat
     \<Rightarrow> py_error + ('i, 'o, 'g) pipeline \<times> real \<times> nat" where
  "train_batches tc batch_size 0 st = Inr st"
| "train_batches tc batch_size (Suc k) (self, epoch_loss, num_batches) =
     (case sample (choice tc) (replay_buffer self) batch_size (rng self) of
        Inl err \<Rightarrow> Inl err
      | Inr (samples, g') \<Rightarrow>
          let self1 = self\<lparr>rng := g'\<rparr>;
              labeled_samples = labeled_of samples
          in if length labeled_samples < 2 then train_batches tc batch_size k (self1, epoch_loss, num_batches)
             else (case train_step tc (opt_state self1) (model self1) (ewc self1) labeled_samples of
                     Inl err \<Rightarrow> Inl err
                   | Inr (o', m', total_loss) \<Rightarrow>
                       train_batches tc batch_size k
                         (self1\<lparr>model := m', opt_state := o'\<rparr>, epoch_loss + total_loss, num_batches + 1)))"

text \<open>
  The outer loop \<^verbatim>\<open>for epoch in range(num_epochs)\<close>, over the remaining epoch numbers.  The
  quotient \<^verbatim>\<open>size // batch_size\<close> is evaluated in every epoch and raises for a zero batch
  size; the buffer does not change during training.
\<close>

fun train_epochs ::
  "('r, 'i, 'o, 'g) torch \<Rightarrow> int \<Rightarrow> int \<Rightarrow> nat list \<Rightarrow> ('i, 'o, 'g) pipeline
     \<Rightarrow> py_error + ('i, 'o, 'g) pipeline" where
  "train_epochs tc batch_size num_epochs [] self = Inr self"
| "train_epochs tc batch_size num_epochs (epoch # es) self =
     (if batch_size = 0 then Inl ZeroDivisionError
      else (case train_batches tc batch_size
                   (nat (min 10 (int (get_size (replay_buffer self)) div batch_size))) (self, 0, 0) of
              Inl err \<Rightarrow> Inl err
            | Inr (self', epoch_loss, num_batches) \<Rightarrow>
                train_epochs tc batch_size num_epochs es
                  (if 0 < num_batches
                   then self'\<lparr>logged := logged self' @ [LogEpoch (epoch + 1) num_epochs (epoch_loss / real num_batches)]\<rparr>
                   else self')))"

text \<open>
  \<^verbatim>\<open>EnhancedAIDetectorPipeline.incremental_train\<close>.  With fewer samples in the replay buffer
  than \<^verbatim>\<open>batch_size\<close> the method logs a warning and returns.
\<close>

definition incremental_train ::
  "('r, 'i, 'o, 'g) torch \<Rightarrow> ('i, 'o, 'g) pipeline \<Rightarrow> int \<Rightarrow> int \<Rightarrow> py_error + ('i, 'o, 'g) pipeline" where
  "incremental_train tc self num_epochs batch_size =
     (if int (get_size (replay_buffer self)) < batch_size
      then Inr (self\<lparr>logged := logged self @ [LogWarning ''Not enough samples in replay buffer for training'']\<rparr>)
      else
        let self0 = self\<lparr>logged := logged self @ [LogStart (get_size (replay_buffer self))]\<rparr>
        in (case (if ewc self0 = None then initialize_ewc tc self0 batch_size else Inr self0) of
              Inl err \<Rightarrow> Inl err
            | Inr self1 \<Rightarrow>
                (case train_epochs tc batch_size num_epochs [0..<nat num_epochs]
                        (self1\<lparr>model := (model self1)\<lparr>pm_training := True\<rparr>\<rparr>) of
                   Inl err \<Rightarrow> Inl err
                 | Inr self2 \<Rightarrow>
                     Inr (self2\<lparr>scheduler_epoch := scheduler_epoch self2 + 1,
                               logged := logged self2 @ [LogInfo ''Incremental training completed'']\<rparr>))))"

section \<open>Frequency features of the fixed module\<close>

text \<open>
  The numpy reductions, on the list of the selected entries.  \<^verbatim>\<open>np.mean\<close> and \<^verbatim>\<open>np.std\<close> of
  an empty array do not raise (they yield a value that is not a number); \<^verbatim>\<open>np.max\<close> of an
  empty array raises \<^verbatim>\<open>ValueError\<close>, and the percentile of an empty array has no value
  either, modelled as \<^verbatim>\<open>IndexError\<close>.  The extraction below never applies any of them to an
  empty list without having raised before.
\<close>

definition np_mean :: "real list \<Rightarrow> real" where
  "np_mean xs = sum_list xs / real (length xs)"

definition np_std :: "real list \<Rightarrow> real" where
  "np_std xs = sqrt (sum_list (map (\<lambda>x. (x - np_mean xs) ^ 2) xs) / real (length xs))"

definition np_max :: "real list \<Rightarrow> py_error + real" where
  "np_max xs = (if xs = [] then Inl ValueError else Inr (Max (set xs)))"

text \<open>\<^verbatim>\<open>np.percentile(xs, q)\<close> with the default linear interpolation.\<close>

definition np_percentile :: "real list \<Rightarrow> real \<Rightarrow> py_error + real" where
  "np_percentile xs q =
     (if xs = [] then Inl IndexError
      else let s = sort xs;
               pos = q / 100 * real (length xs - 1);
               lo = nat \<lfloor>pos\<rfloor>;
               hi = min (lo + 1) (length xs - 1)
           in Inr (s ! lo + (pos - real lo) * (s ! hi - s ! lo)))"

text \<open>
  \<^verbatim>\<open>distances = np.sqrt((x - center_w)**2 + (y - center_h)**2)\<close> at row \<open>i\<close> and column \<open>j\<close>.
\<close>

definition distances :: "ndarray2 \<Rightarrow> nat \<Rightarrow> nat \<Rightarrow> real" where
  "distances m i j =
     sqrt ((real j - real (cols m div 2)) ^ 2 + (real i - real (rows m div 2)) ^ 2)"

text \<open>\<^verbatim>\<open>magnitude_spectrum[mask]\<close>: the entries where the mask holds, in row-major order.\<close>

definition masked :: "ndarray2 \<Rightarrow> (nat \<Rightarrow> nat \<Rightarrow> bool) \<Rightarrow> real list" where
  "masked m msk =
     concat (map (\<lambda>i. map (ent m i) (filter (msk i) [0..<cols m])) [0..<rows m])"

text \<open>
  The body of the loop over the radial bands: four statistics of a band with entries,
  four zeros for a band without.
\<close>

definition band_features :: "ndarray2 \<Rightarrow> real \<times> real \<Rightarrow> py_error + real list" where
  "band_features m band =
     (let band_values = masked m (\<lambda>i j. fst band \<le> distances m i j \<and> distances m i j < snd band)
      in if band_values \<noteq> []
         then (case np_max band_values of
                 Inl err \<Rightarrow> Inl err
               | Inr mx \<Rightarrow>
                   (case np_percentile band_values 95 of
                      Inl err \<Rightarrow> Inl err
                    | Inr p95 \<Rightarrow> Inr [np_mean band_values, np_std band_values, mx, p95]))
         else Inr [0, 0, 0, 0])"

fun bands_loop :: "ndarray2 \<Rightarrow> (real \<times> real) list \<Rightarrow> real list \<Rightarrow> py_error + real list" where
  "bands_loop m [] features = Inr features"
| "bands_loop m (band # bands) features =
     (case band_features m band of
        Inl err \<Rightarrow> Inl err
      | Inr fs \<Rightarrow> bands_loop m bands (features @ fs))"

text \<open>The five statistics of the whole spectrum.\<close>

definition overall_features :: "ndarray2 \<Rightarrow> py_error + real list" where
  "overall_features m =
     (case np_max (entries m) of
        Inl err \<Rightarrow> Inl err
      | Inr mx \<Rightarrow>
          (case np_percentile (entries m) 95 of
             Inl err \<Rightarrow> Inl err
           | Inr p95 \<Rightarrow>
               (case np_percentile (entries m) 5 of
                  Inl err \<Rightarrow> Inl err
                | Inr p5 \<Rightarrow> Inr [np_mean (entries m), np_std (entries m), mx, p95, p5])))"

text \<open>
  The statistics of the row and of the column through the centre; indexing the centre row
  or column of an array without rows or columns raises.
\<close>

definition directional_features :: "ndarray2 \<Rightarrow> py_error + real list" where
  "directional_features m =
     (if rows m = 0 \<or> cols m = 0 then Inl IndexError
      else let h_line = map (ent m (rows m div 2)) [0..<cols m];
               v_line = map (\<lambda>i. ent m i (cols m div 2)) [0..<rows m]
           in Inr [np_mean h_line, np_std h_line, np_mean v_line, np_std v_line])"

text \<open>The three statistics of the region beyond the radius 80, or three zeros.\<close>

definition high_freq_features :: "ndarray2 \<Rightarrow> real list" where
  "high_freq_features m =
     (let high_freq_values = masked m (\<lambda>i j. 80 < distances m i j)
      in if high_freq_values \<noteq> []
         then [np_mean high_freq_values, np_std high_freq_values,
               real (length (filter (\<lambda>v. np_mean high_freq_values * 2 < v) high_freq_values))]
         else [0, 0, 0])"

text \<open>
  \<^verbatim>\<open>features = features[:256]\<close> followed by \<^verbatim>\<open>features.extend([0] * (256 - len(features)))\<close>.
\<close>

definition pad_or_truncate :: "real list \<Rightarrow> real list" where
  "pad_or_truncate features =
     (let fs = take 256 features in fs @ replicate (256 - length fs) 0)"

text \<open>\<^verbatim>\<open>FrequencyFeatureExtractor._extract_frequency_stats\<close>.\<close>

definition extract_frequency_stats :: "ndarray2 \<Rightarrow> py_error + real list" where
  "extract_frequency_stats magnitude_spectrum =
     (case bands_loop magnitude_spectrum [(0, 20), (20, 50), (50, 100)] [] of
        Inl err \<Rightarrow> Inl err
      | Inr f1 \<Rightarrow>
          (case overall_features magnitude_spectrum of
             Inl err \<Rightarrow> Inl err
           | Inr f2 \<Rightarrow>
               (case directional_features magnitude_spectrum of
                  Inl err \<Rightarrow> Inl err
                | Inr f3 \<Rightarrow>
                    Inr (pad_or_truncate (f1 @ f2 @ f3 @ high_freq_features magnitude_spectrum)))))"

subsection \<open>Block transform branch\<close>

text \<open>\<^verbatim>\<open>range(0, n - 7, 8)\<close> for the height or width \<open>n\<close>.\<close>

definition block_starts :: "nat \<Rightarrow> nat list" where
  "block_starts n = map (\<lambda>k. 8 * k) [0..<(n - 7 + 7) div 8]"

text \<open>The slice \<^verbatim>\<open>img[i:i+8, j:j+8]\<close>, which numpy cuts at the border of the array.\<close>

definition slice8 :: "ndarray2 \<Rightarrow> nat \<Rightarrow> nat \<Rightarrow> ndarray2" where
  "slice8 img i j =
     \<lparr> rows = min 8 (rows img - i), cols = min 8 (cols img - j),
       ent = (\<lambda>a b. ent img (i + a) (j + b)) \<rparr>"

text \<open>
  The features one block adds.  \<open>dct\<close> stands for \<^verbatim>\<open>cv2.dct\<close> on the block converted to
  single precision; \<^verbatim>\<open>flatten()[1:]\<close> drops the DC coefficient.
\<close>

definition block_features :: "(ndarray2 \<Rightarrow> ndarray2) \<Rightarrow> ndarray2 \<Rightarrow> nat \<Rightarrow> nat \<Rightarrow> py_error + real list" where
  "block_features dct img i j =
     (let dct_block = dct (slice8 img i j);
          ac_coeffs = drop 1 (entries dct_block)
      in if 0 < length ac_coeffs
         then (case np_max (map abs ac_coeffs) of
                 Inl err \<Rightarrow> Inl err
               | Inr mx \<Rightarrow>
                   Inr [np_mean (map abs ac_coeffs), np_std ac_coeffs, mx,
                        real (length (filter (\<lambda>v. np_std ac_coeffs < \<bar>v\<bar>) ac_coeffs))])
         else Inr [])"

text \<open>
  The inner loop over the columns of blocks: it stops as soon as 252 features are collected.
\<close>

fun inner_loop ::
  "(ndarray2 \<Rightarrow> ndarray2) \<Rightarrow> ndarray2 \<Rightarrow> nat \<Rightarrow> nat list \<Rightarrow> real list \<Rightarrow> py_error + real list" where
  "inner_loop dct img i [] features = Inr features"
| "inner_loop dct img i (j # js) features =
     (case block_features dct img i j of
        Inl err \<Rightarrow> Inl err
      | Inr fs \<Rightarrow>
          if 252 \<le> length (features @ fs) then Inr (features @ fs)
          else inner_loop dct img i js (features @ fs))"

text \<open>
  The outer loop over the rows of blocks, with the same test after each inner loop.
\<close>

fun outer_loop ::
  "(ndarray2 \<Rightarrow> ndarray2) \<Rightarrow> ndarray2 \<Rightarrow> nat list \<Rightarrow> nat list \<Rightarrow> real list \<Rightarrow> py_error + real list" where
  "outer_loop dct img [] js features = Inr features"
| "outer_loop dct img (i # is) js features =
     (case inner_loop dct img i js features of
        Inl err \<Rightarrow> Inl err
      | Inr features' \<Rightarrow>
          if 252 \<le> length features' then Inr features'
          else outer_loop dct img is js features')"

text \<open>\<^verbatim>\<open>FrequencyFeatureExtractor._extract_dct_block_features\<close>.\<close>

definition extract_dct_block_features :: "(ndarray2 \<Rightarrow> ndarray2) \<Rightarrow> ndarray2 \<Rightarrow> py_error + real list" where
  "extract_dct_block_features dct img =
     (case outer_loop dct img (block_starts (rows img)) (block_starts (cols img)) [] of
        Inl err \<Rightarrow> Inl err
      | Inr features \<Rightarrow> Inr (pad_or_truncate features))"

section \<open>Concrete inputs\<close>

text \<open>
  An instance of the library code for the examples below: preprocessing yields the one
  image there is, every image has the logits \<open>(0, 0)\<close> in either mode, the Grad-CAM pass
  raises, the random choice takes the first indices, a loader
  yields its data set as one batch, no gradient is produced, a training step changes nothing
  and reports the loss 0, and L-BFGS meets a zero gradient and leaves the temperature where
  it is.
\<close>

definition example_torch :: "(unit, unit, unit, unit) torch" where
  "example_torch =
     \<lparr> val_transform = (\<lambda>r. ()),
       train_transform = (\<lambda>g r. ((), g)),
       forward = (\<lambda>m g i. ((0, 0), g)),
       cam_hooks = (\<lambda>m g i c. (Inl RuntimeError, g)),
       choice = (\<lambda>g n k. ([0..<k], g)),
       randn = (\<lambda>g. ([(), ()], g)),
       loader = (\<lambda>g ds bs sh. Inr ([ds], g)),
       grads = (\<lambda>m b. []),
       train_step = (\<lambda>os m e b. Inr (os, m, 0)),
       lbfgs = (\<lambda>f lr it t. t) \<rparr>"

text \<open>A pipeline with one classifier parameter, an empty replay buffer and a given temperature.\<close>

definition example_pipeline :: "real \<Rightarrow> (unit, unit, unit) pipeline" where
  "example_pipeline t =
     \<lparr> model = \<lparr> layers = [\<lparr> pname = ''classifier.bias'', requires_grad = True, pdata = [1, 2] \<rparr>],
                 pm_temperature = t, pm_training = True \<rparr>,
       opt_state = (),
       scheduler_epoch = 0,
       confidence_threshold = 8 / 10,
       replay_buffer = new_buffer 10000,
       ewc = None,
       rng = (),
       logged = [] \<rparr>"

text \<open>A one-channel tensor of one row and one column with the given entry.\<close>

definition single :: "real \<Rightarrow> tensor3" where
  "single v = \<lparr> chans = 1, height = 1, width = 1, val = (\<lambda>c i j. v) \<rparr>"

text \<open>
  A second instance, with dropout and augmentation that read the random generator: in
  training mode the logits depend on the state of the generator, in evaluation mode they do
  not; the augmenting transform shifts the image by the state of the generator, the
  deterministic one returns it; the Grad-CAM pass captures a gradient and an activation of 1.
\<close>

definition dropout_net :: "(real \<times> real, nat, real) network" where
  "dropout_net w mode g x =
     (if mode then ([(fst w * x * real g, snd w * x)], Suc g) else ([(fst w * x, snd w * x)], g))"

definition dropout_torch :: "(nat, nat, unit, nat) torch" where
  "dropout_torch =
     \<lparr> val_transform = (\<lambda>r. r),
       train_transform = (\<lambda>g r. (r + g, Suc g)),
       forward = (\<lambda>m g i. if pm_training m then ((real (i + g), 0), Suc g) else ((real i, 0), g)),
       cam_hooks = (\<lambda>m g i c. (Inr (single 1, single 1), g)),
       choice = (\<lambda>g n k. ([0..<k], Suc g)),
       randn = (\<lambda>g. ([g, Suc g], Suc (Suc g))),
       loader = (\<lambda>g ds bs sh. Inr ([ds], Suc g)),
       grads = (\<lambda>m b. []),
       train_step = (\<lambda>os m e b. Inr (os, m, 0)),
       lbfgs = (\<lambda>f lr it t. t) \<rparr>"

definition dropout_pipeline :: "(nat, unit, nat) pipeline" where
  "dropout_pipeline =
     \<lparr> model = \<lparr> layers = [\<lparr> pname = ''classifier.bias'', requires_grad = True, pdata = [1, 2] \<rparr>],
                 pm_temperature = 3 / 2, pm_training = True \<rparr>,
       opt_state = (),
       scheduler_epoch = 0,
       confidence_threshold = 8 / 10,
       replay_buffer = new_buffer 10000,
       ewc = None,
       rng = 0,
       logged = [] \<rparr>"

text \<open>A detector in training mode, with a generator that has been used.\<close>

definition dropout_detector :: "(real \<times> real, nat) detector" where
  "dropout_detector =
     \<lparr> weights = (1, 1), training = True, temperature = 3 / 2, uncertainty_threshold = 3 / 4,
       generator = 5 \<rparr>"

text \<open>Three named parameters, the second one frozen.\<close>

definition example_parameters :: "param list" where
  "example_parameters =
     [\<lparr> pname = ''classifier.weight'', requires_grad = True, pdata = [1 / 2, - 3] \<rparr>,
      \<lparr> pname = ''backbone.conv1.weight'', requires_grad = False, pdata = [7] \<rparr>,
      \<lparr> pname = ''classifier.bias'', requires_grad = True, pdata = [1 / 10] \<rparr>]"

text \<open>
  Two replay buffers filled through \<^verbatim>\<open>add\<close>: one whose two samples both carry user
  feedback, and one with three samples of which the second has none.
\<close>

definition fed_buffer :: "unit replay_buffer" where
  "fed_buffer = add (add (new_buffer 10) () 1 (6 / 10) (Some 1) (Some 1)) () 0 (7 / 10) (Some 0) (Some 0)"

definition mixed_buffer :: "unit replay_buffer" where
  "mixed_buffer =
     add (add (add (new_buffer 10) () 1 (6 / 10) (Some 1) (Some 1)) () 0 (7 / 10) None None)
       () 0 (9 / 10) (Some 0) (Some 0)"

text \<open>
  The centred magnitude spectrum of a uniform image of two rows and three columns (all
  the energy at the centre), a uniform grey image of nine rows and ten columns, and the
  block transform of a constant block (all the energy in the DC coefficient).
\<close>

definition uniform_spectrum :: ndarray2 where
  "uniform_spectrum = \<lparr> rows = 2, cols = 3, ent = (\<lambda>i j. if i = 1 \<and> j = 1 then 3 else 0) \<rparr>"

definition grey_image :: ndarray2 where
  "grey_image = \<lparr> rows = 9, cols = 10, ent = (\<lambda>i j. 1 / 2) \<rparr>"

definition constant_block_dct :: "ndarray2 \<Rightarrow> ndarray2" where
  "constant_block_dct b = b\<lparr>ent := (\<lambda>u v. if u = 0 \<and> v = 0 then 8 * ent b 0 0 else 0)\<rparr>"

section \<open>Properties of the verdict policy\<close>

lemma result_row_simps:
  "prediction (result_row t lg cal p) =
     (if fst (torch_max p) < t then ''UNCERTAIN''
      else if snd (torch_max p) = 1 then ''synthetic'' else ''real'')"
  "confidence (result_row t lg cal p) = fst (torch_max p)"
  "is_uncertain (result_row t lg cal p) = (fst (torch_max p) < t)"
  "logits (result_row t lg cal p) = lg"
  "calibrated_logits (result_row t lg cal p) = cal"
  by (simp_all add: result_row_def Let_def)

lemma torch_max_is_max: "fst (torch_max p) = max (fst p) (snd p)"
  by (simp add: torch_max_def max_def)

lemma torch_max_index: "snd (torch_max p) = 0 \<or> snd (torch_max p) = 1"
  by (simp add: torch_max_def)

text \<open>
  The result of one image in \<^verbatim>\<open>predict_with_uncertainty\<close> and the result dictionary of the
  pipeline's \<^verbatim>\<open>predict\<close>, as functions of the probability row and the threshold.
\<close>

theorem verdict_policy:
  "(fst (torch_max p) < t \<longrightarrow> prediction (result_row t lg cal p) = ''UNCERTAIN'')
   \<and> (t \<le> fst (torch_max p) \<longrightarrow>
        prediction (result_row t lg cal p) = (if snd (torch_max p) = 1 then ''synthetic'' else ''real'')
        \<and> prediction (result_row t lg cal p) \<noteq> ''UNCERTAIN'')
   \<and> confidence (result_row t lg cal p) = max (fst p) (snd p)
   \<and> pl_prediction (predict_result t p) = (if snd (torch_max p) = 1 then ''ai_generated'' else ''real'')
   \<and> (is_certain (predict_result t p) \<longleftrightarrow> t \<le> fst (torch_max p))"
  by (auto simp add: result_row_simps torch_max_def predict_result_def Let_def max_def)

text \<open>
  \<^verbatim>\<open>predict_with_uncertainty\<close> of the fixed module keeps the verdict policy, for every
  network, input, temperature and threshold of the detector: the confidence of a result is
  the larger of its two class probabilities; below the detector's threshold the verdict is
  \<^verbatim>\<open>UNCERTAIN\<close> whichever class won, and at or above it the verdict is the label of the
  arg-max class.
\<close>

lemma predict_with_uncertainty_verdict:
  "\<forall>r \<in> set (fst (predict_with_uncertainty net self x apply_temperature)).
     confidence r = max (real_probability r) (synthetic_probability r)
     \<and> (confidence r < uncertainty_threshold self \<longrightarrow> prediction r = ''UNCERTAIN'')
     \<and> (uncertainty_threshold self \<le> confidence r \<longrightarrow>
           prediction r = (if real_probability r < synthetic_probability r then ''synthetic'' else ''real''))"
  by (auto simp add: predict_with_uncertainty_def Let_def result_row_def torch_max_def max_def)

lemma predict_with_uncertainty_at_equal_logits:
  "map prediction
     (fst (predict_with_uncertainty (\<lambda>w t g x. ([(0, 0)], g))
             \<lparr>weights = (), training = True, temperature = 3 / 2, uncertainty_threshold = 8 / 10,
               generator = ()\<rparr> () True)) = [''UNCERTAIN'']"
  by (simp add: predict_with_uncertainty_def Let_def result_row_def torch_max_def softmax_def
        temperature_scaling_forward_def)

text \<open>
  C1 at a failing input.  The claim is that a confidence strictly below the threshold gives
  the verdict uncertain, whichever class has the arg-max.  \<^verbatim>\<open>EnhancedAIDetectorPipeline.predict\<close>
  chooses the prediction from the arg-max alone: on an image whose two logits are equal,
  with the threshold 0.8 of the pipeline, the confidence is 0.5 and the prediction returned
  is \<^verbatim>\<open>real\<close>; only the flag \<^verbatim>\<open>is_certain\<close> is false.  On the same logits
  \<^verbatim>\<open>predict_with_uncertainty\<close> returns \<^verbatim>\<open>UNCERTAIN\<close> (the lemma above).
\<close>

theorem predict_reports_real_below_threshold:
  "map_sum id (pl_prediction \<circ> fst) (predict example_torch (example_pipeline (3 / 2)) () False) = Inr ''real''
   \<and> map_sum id (pl_confidence \<circ> fst) (predict example_torch (example_pipeline (3 / 2)) () False) = Inr (1 / 2)
   \<and> map_sum id (is_certain \<circ> fst) (predict example_torch (example_pipeline (3 / 2)) () False) = Inr False
   \<and> confidence_threshold (example_pipeline (3 / 2)) = 8 / 10"
  by (simp add: predict_def Let_def example_torch_def example_pipeline_def predict_result_def
        preprocess_image_def torch_max_def softmax_def temperature_scaling_forward_def)

text \<open>
  C10.  In every result of \<^verbatim>\<open>predict_with_uncertainty\<close> the flag \<^verbatim>\<open>is_uncertain\<close> is true
  exactly when the prediction is the string \<^verbatim>\<open>UNCERTAIN\<close>, and a result whose flag is false
  has the prediction \<^verbatim>\<open>real\<close> or \<^verbatim>\<open>synthetic\<close>.
\<close>

theorem flag_agrees_with_verdict:
  "\<forall>r \<in> set (fst (predict_with_uncertainty fwd self x apply_temperature)).
     (is_uncertain r \<longleftrightarrow> prediction r = ''UNCERTAIN'')
     \<and> (\<not> is_uncertain r \<longrightarrow> prediction r = ''real'' \<or> prediction r = ''synthetic'')"
  by (auto simp add: predict_with_uncertainty_def Let_def result_row_simps)

theorem flag_agrees_with_verdict_witness:
  "(let rs = fst (predict_with_uncertainty (\<lambda>w t g x. ([(0, 0)], g))
                    \<lparr>weights = (), training = True, temperature = 3 / 2, uncertainty_threshold = 3 / 4,
                      generator = ()\<rparr> () True)
    in rs \<noteq> [] \<and> is_uncertain (hd rs) \<and> prediction (hd rs) = ''UNCERTAIN'')
   \<and> (let rs = fst (predict_with_uncertainty (\<lambda>w t g x. ([(0, 0)], g))
                    \<lparr>weights = (), training = True, temperature = 3 / 2, uncertainty_threshold = 1 / 2,
                      generator = ()\<rparr> () True)
    in rs \<noteq> [] \<and> \<not> is_uncertain (hd rs) \<and> prediction (hd rs) = ''real'')"
  using flag_agrees_with_verdict [of "\<lambda>w t g x. ([(0, 0)], g)"
          "\<lparr>weights = (), training = True, temperature = 3 / 2, uncertainty_threshold = 3 / 4,
            generator = ()\<rparr>" "()" True]
        flag_agrees_with_verdict [of "\<lambda>w t g x. ([(0, 0)], g)"
          "\<lparr>weights = (), training = True, temperature = 3 / 2, uncertainty_threshold = 1 / 2,
            generator = ()\<rparr>" "()" True]
  by (simp add: predict_with_uncertainty_def Let_def result_row_simps torch_max_def softmax_def
        temperature_scaling_forward_def)

section \<open>Properties of the quota\<close>

lemma round53_upper: "2 ^ 53 * round53 n \<le> (2 ^ 53 + 1) * n"
proof (cases "floorlog 2 n \<le> 53")
  case True
  then show ?thesis by (simp add: round53_def)
next
  case False
  define k where "k = floorlog 2 n"
  define s where "s = k - 53"
  define q where "q = n div 2 ^ s"
  define r where "r = n mod 2 ^ s"
  from False have k: "53 < k" by (simp add: k_def)
  then have s: "0 < s" "k = s + 53" by (simp_all add: s_def)
  have npos: "0 < n" using False by (cases "n = 0") (simp_all add: floorlog_def)
  have lo: "2 ^ (k - 1) \<le> n"
    using floorlog_bounds [of n 2] npos by (simp add: k_def)
  have n_eq: "n = q * 2 ^ s + r" using div_mult_mod_eq [of n "2 ^ s"] by (simp add: q_def r_def)
  have r_lt: "r < 2 ^ s" by (simp add: r_def)
  have half: "(2::nat) ^ s = 2 * 2 ^ (s - 1)" using s(1) by (cases s) simp_all
  have res: "round53 n = (if 2 ^ (s - 1) < r \<or> (r = 2 ^ (s - 1) \<and> odd q) then q + 1 else q) * 2 ^ s"
    using False by (simp add: round53_def Let_def k_def s_def q_def r_def)
  have le: "round53 n \<le> n + 2 ^ (s - 1)"
  proof (cases "2 ^ (s - 1) < r \<or> (r = 2 ^ (s - 1) \<and> odd q)")
    case True
    then have "2 ^ (s - 1) \<le> r" by auto
    moreover have "round53 n = q * 2 ^ s + 2 ^ s" using True res by (simp add: algebra_simps)
    ultimately show ?thesis using n_eq half by linarith
  next
    case False
    then have "round53 n = q * 2 ^ s" using res by simp
    then show ?thesis using n_eq by linarith
  qed
  have "(2::nat) ^ 53 * 2 ^ (s - 1) = 2 ^ (53 + (s - 1))"
    by (simp only: power_add)
  moreover have "53 + (s - 1) = k - 1" using s by simp
  ultimately have "(2::nat) ^ 53 * 2 ^ (s - 1) = 2 ^ (k - 1)" by simp
  then have "2 ^ 53 * 2 ^ (s - 1) \<le> n" using lo by simp
  moreover have "2 ^ 53 * round53 n \<le> 2 ^ 53 * n + 2 ^ 53 * 2 ^ (s - 1)"
    using le by (metis add_mult_distrib2 mult_le_mono2)
  ultimately show ?thesis by (simp add: algebra_simps)
qed

lemma int_times_0_7_bounds:
  assumes "0 \<le> b" "int_times_0_7 b = Inr q"
  shows "0 \<le> q \<and> q \<le> b"
proof -
  define f where "f = round53 (nat \<bar>b\<bar>)"
  define p where "p = round53 (f * 6305039478318694)"
  have q: "q = sgn b * int (p div 2 ^ 53)"
    using assms(2) by (simp add: int_times_0_7_def Let_def f_def p_def split: if_splits)
  have nonneg: "0 \<le> q" using assms(1) q by (simp add: sgn_if)
  have f: "2 ^ 53 * f \<le> (2 ^ 53 + 1) * nat b"
    using round53_upper [of "nat \<bar>b\<bar>"] assms(1) by (simp add: f_def)
  have p: "2 ^ 53 * p \<le> (2 ^ 53 + 1) * (f * 6305039478318694)"
    unfolding p_def by (rule round53_upper)
  have "2 ^ 53 * (2 ^ 53 * p) \<le> 2 ^ 53 * ((2 ^ 53 + 1) * (f * 6305039478318694))"
    using p by (rule mult_le_mono2)
  also have "\<dots> = (2 ^ 53 + 1) * 6305039478318694 * (2 ^ 53 * f)" by (simp add: algebra_simps)
  also have "\<dots> \<le> (2 ^ 53 + 1) * 6305039478318694 * ((2 ^ 53 + 1) * nat b)"
    using f by (rule mult_le_mono2)
  also have "\<dots> = ((2 ^ 53 + 1) * 6305039478318694 * (2 ^ 53 + 1)) * nat b" by (simp add: algebra_simps)
  also have "\<dots> \<le> (2 ^ 53 * 2 ^ 53 * 2 ^ 53) * nat b"
    by (rule mult_le_mono1) simp
  finally have "2 ^ 53 * (2 ^ 53 * p) \<le> 2 ^ 53 * (2 ^ 53 * (2 ^ 53 * nat b))" by (simp add: algebra_simps)
  then have "p \<le> 2 ^ 53 * nat b" by simp
  then have "p div 2 ^ 53 \<le> nat b"
    by (metis div_le_mono nonzero_mult_div_cancel_left power_eq_0_iff zero_neq_numeral)
  then show ?thesis using nonneg q assms(1) by (simp add: sgn_if split: if_splits)
qed

lemma int_times_0_7_defined:
  assumes "\<bar>b\<bar> < 2 ^ 1023"
  shows "\<exists>q. int_times_0_7 b = Inr q"
proof -
  have "nat \<bar>b\<bar> < 2 ^ 1023" using assms by (simp add: nat_less_iff)
  moreover have "2 ^ 53 * round53 (nat \<bar>b\<bar>) \<le> (2 ^ 53 + 1) * nat \<bar>b\<bar>" by (rule round53_upper)
  ultimately have "2 ^ 53 * round53 (nat \<bar>b\<bar>) < 2 ^ 53 * 2 ^ 1024"
    by (simp add: algebra_simps)
  then have "round53 (nat \<bar>b\<bar>) < 2 ^ 1024" by simp
  then show ?thesis by (simp add: int_times_0_7_def Let_def)
qed

lemma floorlog_2_eq: "2 ^ (k - 1) \<le> n \<Longrightarrow> n < 2 ^ k \<Longrightarrow> floorlog 2 n = k"
  by (rule antisym) (simp_all add: floorlog_le_iff floorlog_geI)

lemma round53_small: "n < 2 ^ 53 \<Longrightarrow> round53 n = n"
  by (simp add: round53_def floorlog_le_iff)

lemma int_times_0_7_small:
  assumes "0 \<le> b" "b < 2 ^ 53"
  shows "int_times_0_7 b = Inr (int (round53 (nat b * 6305039478318694) div 2 ^ 53))"
proof -
  have s: "nat \<bar>b\<bar> < 2 ^ 53" using assms by (simp add: nat_less_iff)
  then have r: "round53 (nat \<bar>b\<bar>) = nat b" using assms by (simp add: round53_small)
  have "(2::nat) ^ 53 \<le> 2 ^ 1024" by (rule power_increasing) simp_all
  with s assms have "\<not> 2 ^ 1024 \<le> nat b" by linarith
  moreover have "round53 0 = 0" by (rule round53_small) simp
  ultimately show ?thesis using r assms by (simp add: int_times_0_7_def Let_def sgn_if del: power_numeral)
qed

lemma quota_of_2: "int_times_0_7 2 = Inr 1"
proof -
  have "floorlog 2 (12610078956637388::nat) = 54" by (rule floorlog_2_eq) simp_all
  then have "round53 12610078956637388 = 12610078956637388" by (simp add: round53_def Let_def)
  then show ?thesis using int_times_0_7_small [of 2] by simp
qed

section \<open>Properties of the temperature calibration\<close>

text \<open>
  After \<^verbatim>\<open>TemperatureScaling.calibrate\<close> of the fixed module the temperature lies between
  0.1 and 10, whatever the optimizer returned and wherever the temperature started.
\<close>

lemma calibrate_in_range:
  "1 / 10 \<le> calibrate opt t lgs labels max_iter lr \<and> calibrate opt t lgs labels max_iter lr \<le> 10"
  by (simp add: calibrate_def torch_clamp_def)

text \<open>
  After \<^verbatim>\<open>calibrate_temperature\<close> of the pipeline module the temperature is the value the
  optimizer left, unchanged.
\<close>

lemma calibrate_temperature_result:
  "validation_data \<noteq> [] \<Longrightarrow>
   \<exists>self'. calibrate_temperature tc self validation_data = Inr self' \<and>
     pm_temperature (model self') =
       lbfgs tc (\<lambda>t. cross_entropy
                  (map (temperature_scaling_forward t)
                     (fst (collect_logits tc ((model self)\<lparr>pm_training := False\<rparr>) (rng self) validation_data)))
                  (concat (map snd validation_data)))
         (1 / 100) 50 (pm_temperature (model self))"
  by (simp add: calibrate_temperature_def Let_def)

text \<open>
  C4 at a failing input.  The claim is that the temperature lies in the interval from 0.1
  to 10 once the calibration fit has completed, for every starting temperature.  The
  pipeline's \<^verbatim>\<open>calibrate_temperature\<close> has no clamp: started at the temperature 20, on a
  validation batch whose logits are all zero (so that the loss has a zero gradient and the
  optimizer moves nothing), the temperature after the fit is 20.
\<close>

theorem calibrate_temperature_unclamped:
  "map_sum id (pm_temperature \<circ> model)
     (calibrate_temperature example_torch (example_pipeline 20) [([()], [0])]) = Inr 20"
  by (simp add: calibrate_temperature_def example_torch_def example_pipeline_def Let_def)

section \<open>Properties of the heat maps\<close>

text \<open>
  The map returned by \<^verbatim>\<open>GradCAM.generate_cam\<close> of the fixed module has no negative entry.
\<close>

lemma generate_cam_nonneg:
  "generate_cam gradients activations act_requires_grad = Inr cam \<Longrightarrow> 0 \<le> ent cam i j"
  by (auto simp add: generate_cam_def relu_def zeros_def Let_def
        split: option.splits if_splits sum.splits)

text \<open>
  \<^verbatim>\<open>generate_cam\<close> divides by the maximum only when the maximum is positive, and returns
  the rectified map itself otherwise; with an activation that requires a gradient the
  conversion of the map raises.
\<close>

lemma generate_cam_normalisation:
  assumes "generate_cam (Some g) a act_requires_grad = Inr cam"
  shows "\<exists>m. array_max (relu (weighted_sum g a)) = Inr m \<and>
             (0 < m \<longrightarrow> cam = (relu (weighted_sum g a))\<lparr>ent := (\<lambda>i j. ent (relu (weighted_sum g a)) i j / m)\<rparr>) \<and>
             (\<not> 0 < m \<longrightarrow> cam = relu (weighted_sum g a))"
  using assms by (auto simp add: generate_cam_def Let_def split: if_splits sum.splits)

lemma generate_cam_requires_grad:
  "chans g \<le> chans a \<Longrightarrow> 0 < height a \<Longrightarrow> 0 < width a \<Longrightarrow> generate_cam (Some g) a True = Inl RuntimeError"
  by (cases "height a"; cases "width a")
     (simp_all add: generate_cam_def Let_def array_max_def entries_def relu_def weighted_sum_def
        upt_conv_Cons del: upt_Suc)

lemma generate_cam_of_zero_map:
  "generate_cam (Some (single 1)) (single 0) False = Inr (relu (weighted_sum (single 1) (single 0)))"
  by (simp add: generate_cam_def single_def weighted_sum_def relu_def array_max_def entries_def
        channel_mean_def Let_def)

text \<open>
  C8 at a failing input.  The claim is that a heat map that is all zeros is returned
  unchanged rather than being divided by zero, and that the map returned has no negative
  entry.  \<^verbatim>\<open>GradCAMVisualizer.generate_heatmap\<close> of the pipeline module divides by the maximum
  without a test: for an activation that is zero the rectified map is zero, its maximum is
  zero, and the entry returned is the quotient of zero by zero, which is not a number.
\<close>

theorem heatmap_of_zero_map:
  "map_sum id (\<lambda>h. (frows h, fcols h, fat h 0 0)) (generate_heatmap (single 1) (single 0))
     = Inr (1, 1, NaN)"
  by (simp add: generate_heatmap_def single_def weighted_sum_def relu_def array_max_def entries_def
        channel_mean_def float_div_def Let_def)

section \<open>Properties of the replay buffer\<close>

text \<open>
  Below capacity \<^verbatim>\<open>add\<close> appends the sample with the old length as its number; at
  capacity the new sample is stored last and its number is the capacity itself.
\<close>

lemma add_below_capacity:
  "length (buffer self) < max_size self \<Longrightarrow>
   buffer (add self img pred conf gt fb) =
     buffer self @ [\<lparr> image = img, sm_prediction = pred, sm_confidence = conf, ground_truth = gt,
                      user_feedback = fb, timestamp = length (buffer self) \<rparr>]"
  by (simp add: add_def deque_append_def)

lemma add_at_capacity:
  "0 < max_size self \<Longrightarrow> length (buffer self) = max_size self \<Longrightarrow>
   length (buffer (add self img pred conf gt fb)) = max_size self
   \<and> timestamp (last (buffer (add self img pred conf gt fb))) = max_size self"
  by (simp add: add_def deque_append_def)

text \<open>
  C7 at a failing input.  The claim is that the insertion order of each new sample is
  strictly greater than that of every sample inserted before, also once the store is full.
  \<^verbatim>\<open>ReplayBuffer.add\<close> records the length of the buffer, which stops growing at
  \<^verbatim>\<open>max_size\<close>: after four insertions into a buffer of capacity 2, the third and the fourth
  sample are stored and both carry the number 2.
\<close>

theorem timestamp_repeats_at_capacity:
  "map timestamp
     (buffer (add (add (add (add (new_buffer 2) () 0 (1 / 2) None None) () 0 (1 / 2) None None)
                     () 0 (1 / 2) None None) () 0 (1 / 2) None None)) = [2, 2]"
  by (simp add: add_def new_buffer_def deque_append_def)

section \<open>Properties of the forgetting guard\<close>

lemma dict_comp_snoc:
  "dict_comp f (ps @ [p]) =
     (if requires_grad p then (dict_comp f ps)(pname p \<mapsto> f p) else dict_comp f ps)"
  by (simp add: dict_comp_def)

lemma dict_comp_lookup:
  "distinct (map pname ps) \<Longrightarrow> p \<in> set ps \<Longrightarrow> requires_grad p \<Longrightarrow> dict_comp f ps (pname p) = Some (f p)"
proof (induction ps rule: rev_induct)
  case Nil
  then show ?case by simp
next
  case (snoc q qs)
  show ?case
  proof (cases "p = q")
    case True
    with snoc.prems show ?thesis by (simp add: dict_comp_snoc)
  next
    case False
    with snoc.prems have "p \<in> set qs" by simp
    moreover from this snoc.prems have "pname p \<noteq> pname q" by (auto simp add: image_iff)
    moreover note snoc.IH snoc.prems
    ultimately show ?thesis by (simp add: dict_comp_snoc)
  qed
qed

lemma sum_zero_weights: "sum_list (map2 (*) (replicate n (0::real)) xs) = 0"
proof (induction n arbitrary: xs)
  case 0
  then show ?case by simp
next
  case (Suc n)
  then show ?case by (cases xs) simp_all
qed

lemma penalty_loop_fresh:
  assumes "\<And>p. p \<in> set ps \<Longrightarrow> requires_grad p \<Longrightarrow>
             fisher e (pname p) = Some (zeros_like p) \<and> params e (pname p) = Some (pdata p)"
  shows "penalty_loop e ps 0 = Inr 0"
  using assms
proof (induction ps)
  case Nil
  then show ?case by simp
next
  case (Cons p ps)
  then have rest: "penalty_loop e ps 0 = Inr 0" by simp
  show ?case
  proof (cases "requires_grad p")
    case True
    with Cons.prems [of p] have "fisher e (pname p) = Some (zeros_like p)" "params e (pname p) = Some (pdata p)"
      by simp_all
    with True rest show ?thesis by (simp add: zeros_like_def sum_zero_weights)
  next
    case False
    with rest show ?thesis by (simp split: option.splits)
  qed
qed

text \<open>
  C6.  Immediately after the guard is constructed from a model, its penalty against the
  parameters of that model is exactly 0, whatever \<^verbatim>\<open>lambda_ewc\<close> is: the snapshot equals the
  parameters and the Fisher accumulators are zero.  (The names that
  \<^verbatim>\<open>named_parameters\<close> yields are different from one another.)
\<close>

theorem penalty_after_construction:
  "distinct (map pname named) \<Longrightarrow> penalty (ewc_init named lam) named = Inr 0"
proof -
  assume d: "distinct (map pname named)"
  have "penalty_loop (ewc_init named lam) named 0 = Inr 0"
    by (rule penalty_loop_fresh) (simp add: ewc_init_def dict_comp_lookup [OF d])
  then show ?thesis by (simp add: penalty_def)
qed

theorem penalty_after_construction_witness:
  "distinct (map pname example_parameters) \<and> penalty (ewc_init example_parameters 1000) example_parameters = Inr 0"
  using penalty_after_construction [of example_parameters 1000]
  by (simp add: example_parameters_def)

section \<open>Properties of incremental training\<close>

text \<open>
  C5.  When the replay buffer holds fewer samples than \<^verbatim>\<open>batch_size\<close>, \<^verbatim>\<open>incremental_train\<close>
  returns normally, having logged one warning, and leaves the model parameters, the
  temperature, the Fisher information and snapshot of the guard, the optimizer, the
  scheduler and the buffer as they were.
\<close>

theorem incremental_train_too_few_samples:
  assumes "int (get_size (replay_buffer self)) < batch_size"
  shows "\<exists>self'. incremental_train tc self num_epochs batch_size = Inr self'
           \<and> model self' = model self
           \<and> layers (model self') = layers (model self)
           \<and> pm_temperature (model self') = pm_temperature (model self)
           \<and> ewc self' = ewc self
           \<and> opt_state self' = opt_state self
           \<and> scheduler_epoch self' = scheduler_epoch self
           \<and> replay_buffer self' = replay_buffer self
           \<and> logged self' = logged self @ [LogWarning ''Not enough samples in replay buffer for training'']"
  using assms by (simp add: incremental_train_def)

theorem incremental_train_too_few_samples_witness:
  "int (get_size (replay_buffer (example_pipeline (3 / 2)))) < 16
   \<and> (\<exists>self'. incremental_train example_torch (example_pipeline (3 / 2)) 5 16 = Inr self'
           \<and> model self' = model (example_pipeline (3 / 2))
           \<and> ewc self' = None
           \<and> logged self' = [LogWarning ''Not enough samples in replay buffer for training''])"
proof -
  have few: "int (get_size (replay_buffer (example_pipeline (3 / 2)))) < 16"
    by (simp add: example_pipeline_def get_size_def new_buffer_def)
  from incremental_train_too_few_samples [OF few, of example_torch 5]
  obtain self' where "incremental_train example_torch (example_pipeline (3 / 2)) 5 16 = Inr self'"
    and "model self' = model (example_pipeline (3 / 2))"
    and "ewc self' = ewc (example_pipeline (3 / 2))"
    and "logged self' = logged (example_pipeline (3 / 2)) @ [LogWarning ''Not enough samples in replay buffer for training'']"
    by blast
  then have "incremental_train example_torch (example_pipeline (3 / 2)) 5 16 = Inr self'
           \<and> model self' = model (example_pipeline (3 / 2))
           \<and> ewc self' = None
           \<and> logged self' = [LogWarning ''Not enough samples in replay buffer for training'']"
    by (simp add: example_pipeline_def)
  with few show ?thesis by blast
qed

section \<open>Determinism of inference\<close>

text \<open>
  The example library keeps the contract of evaluation mode, and in training mode its
  forward passes and its augmenting transform give different values for different states of
  the random generator.
\<close>

lemma dropout_net_contract: "eval_mode_contract dropout_net"
  by (simp add: eval_mode_contract_def dropout_net_def)

lemma dropout_torch_contract: "eval_contract dropout_torch"
  by (simp add: eval_contract_def dropout_torch_def)

lemma dropout_net_training_differs:
  "fst (dropout_net (1, 1) True 0 1) \<noteq> fst (dropout_net (1, 1) True 1 1)"
  by (simp add: dropout_net_def)

lemma dropout_torch_training_differs:
  "fst (forward dropout_torch (m\<lparr>pm_training := True\<rparr>) 0 i) \<noteq> fst (forward dropout_torch (m\<lparr>pm_training := True\<rparr>) 1 i)"
  by (simp add: dropout_torch_def)

lemma train_transform_differs:
  "fst (preprocess_image dropout_torch img True 0) \<noteq> fst (preprocess_image dropout_torch img True 1)"
  by (simp add: preprocess_image_def dropout_torch_def)

text \<open>
  C9.  Two successive calls of prediction on the same input, with nothing in between,
  return the same records: for \<^verbatim>\<open>predict_with_uncertainty\<close> of the fixed module the same list
  of results (verdict, confidence, probabilities, raw and calibrated logits), and for
  \<^verbatim>\<open>predict\<close> of the pipeline module, whenever the first call returns a result, the second
  call returns that result again.  This holds for every library that keeps the contract of
  evaluation mode, because both methods switch to evaluation mode before the forward pass
  and \<^verbatim>\<open>predict\<close> preprocesses with the deterministic transform; the random generator, the
  replay buffer and the mode flag, which a call changes, then have no influence on the next
  result.
\<close>

theorem predict_deterministic:
  assumes net: "eval_mode_contract net" and tc: "eval_contract tc"
  shows "fst (predict_with_uncertainty net (snd (predict_with_uncertainty net self x apply_temperature)) x apply_temperature)
           = fst (predict_with_uncertainty net self x apply_temperature)
       \<and> (\<forall>result self'. predict tc pl img return_heatmap = Inr (result, self') \<longrightarrow>
             (\<exists>self''. predict tc self' img return_heatmap = Inr (result, self'')))"
proof
  let ?g' = "snd (net (weights self) False (generator self) x)"
  have "fst (net (weights self) False ?g' x) = fst (net (weights self) False (generator self) x)"
    using net by (simp add: eval_mode_contract_def)
  then show "fst (predict_with_uncertainty net (snd (predict_with_uncertainty net self x apply_temperature)) x apply_temperature)
           = fst (predict_with_uncertainty net self x apply_temperature)"
    by (simp add: predict_with_uncertainty_def Let_def)
next
  show "\<forall>result self'. predict tc pl img return_heatmap = Inr (result, self') \<longrightarrow>
         (\<exists>self''. predict tc self' img return_heatmap = Inr (result, self''))"
  proof (intro allI impI)
    fix result self'
    assume p: "predict tc pl img return_heatmap = Inr (result, self')"
    define m where "m = (model pl)\<lparr>pm_training := False\<rparr>"
    define inp where "inp = val_transform tc img"
    from p have ms: "model self' = m" and t: "confidence_threshold self' = confidence_threshold pl"
      by (auto simp add: predict_def Let_def m_def split: sum.splits if_splits prod.splits)
    have mm: "m\<lparr>pm_training := False\<rparr> = m" by (simp add: m_def)
    have f: "fst (forward tc m g inp) = fst (forward tc m g' inp)" for g g'
      using tc mm unfolding eval_contract_def by metis
    have c: "fst (cam_hooks tc m g inp k) = fst (cam_hooks tc m g' inp k)" for g g' k
      using tc mm unfolding eval_contract_def by metis
    from p show "\<exists>self''. predict tc self' img return_heatmap = Inr (result, self'')"
      unfolding predict_def Let_def preprocess_image_def ms t mm m_def [symmetric] inp_def [symmetric]
      using f [of "rng self'" "rng pl"] c [of "snd (forward tc m (rng self') inp)" _ "snd (forward tc m (rng pl) inp)"]
      by (auto split: sum.splits if_splits prod.splits)
  qed
qed

theorem predict_deterministic_witness:
  "length (fst (predict_with_uncertainty dropout_net dropout_detector 1 True)) = 1
   \<and> fst (predict_with_uncertainty dropout_net
            (snd (predict_with_uncertainty dropout_net dropout_detector 1 True)) 1 True)
       = fst (predict_with_uncertainty dropout_net dropout_detector 1 True)
   \<and> (\<exists>result self'. predict dropout_torch dropout_pipeline 0 True = Inr (result, self')
         \<and> pl_prediction result = ''real'' \<and> pl_confidence result = 1 / 2
         \<and> (\<exists>self''. predict dropout_torch self' 0 True = Inr (result, self'')))"
proof -
  note d = predict_deterministic [OF dropout_net_contract dropout_torch_contract,
      of dropout_detector 1 True dropout_pipeline 0 True]
  have l: "length (fst (predict_with_uncertainty dropout_net dropout_detector 1 True)) = 1"
    by (simp add: predict_with_uncertainty_def Let_def dropout_net_def dropout_detector_def)
  have h: "generate_heatmap (single 1) (single 1)
             = Inr \<lparr> frows = 1, fcols = 1, fat = (\<lambda>i j. Finite 1) \<rparr>"
    by (simp add: generate_heatmap_def single_def weighted_sum_def relu_def array_max_def entries_def
          channel_mean_def float_div_def Let_def)
  obtain result self' where p: "predict dropout_torch dropout_pipeline 0 True = Inr (result, self')"
    by (simp add: predict_def Let_def dropout_torch_def h)
  from p have v: "pl_prediction result = ''real'' \<and> pl_confidence result = 1 / 2"
    by (auto simp add: predict_def Let_def dropout_torch_def dropout_pipeline_def h predict_result_def
          preprocess_image_def torch_max_def softmax_def temperature_scaling_forward_def)
  from d p have "\<exists>self''. predict dropout_torch self' 0 True = Inr (result, self'')" by blast
  with d l p v show ?thesis by blast
qed

section \<open>Properties of sampling\<close>

lemma int_times_0_7_sgn:
  "int_times_0_7 b = Inr q \<Longrightarrow> \<exists>m. int_times_0_7 \<bar>b\<bar> = Inr m \<and> q = sgn b * m"
  by (auto simp add: int_times_0_7_def Let_def sgn_if split: if_splits)

lemma int_times_0_7_abs:
  assumes "int_times_0_7 b = Inr q"
  shows "(0 \<le> b \<longrightarrow> 0 \<le> q \<and> q \<le> b) \<and> (b \<le> 0 \<longrightarrow> b \<le> q \<and> q \<le> 0)"
proof -
  from int_times_0_7_sgn [OF assms] obtain m where m: "int_times_0_7 \<bar>b\<bar> = Inr m" "q = sgn b * m"
    by blast
  from int_times_0_7_bounds [OF _ m(1)] have "0 \<le> m \<and> m \<le> \<bar>b\<bar>" by simp
  with m(2) show ?thesis by (auto simp add: sgn_if)
qed

lemma map_fst_tagged: "map fst (tagged self) = [0..<length (buffer self)]"
  by (simp add: tagged_def)

lemma distinct_tagged: "distinct (map fst (tagged self))"
  by (simp add: map_fst_tagged)

lemma distinct_feedback: "distinct (map fst (feedback_samples self))"
  unfolding feedback_samples_def by (rule distinct_map_filter) (rule distinct_tagged)

lemma distinct_no_feedback: "distinct (map fst (no_feedback_samples self))"
  unfolding no_feedback_samples_def by (rule distinct_map_filter) (rule distinct_tagged)

lemma pick_props:
  assumes "valid_choice (length xs) k (fst (ch g (length xs) k))" "distinct (map fst xs)"
  shows "length (fst (pick ch xs k g)) = k"
    and "set (fst (pick ch xs k g)) \<subseteq> set xs"
    and "distinct (map fst (fst (pick ch xs k g)))"
proof -
  obtain idx g' where c: "ch g (length xs) k = (idx, g')" by (cases "ch g (length xs) k")
  with assms(1) have v: "length idx = k" "distinct idx" "\<forall>i \<in> set idx. i < length xs"
    by (simp_all add: valid_choice_def list_all_iff)
  have p: "fst (pick ch xs k g) = map (\<lambda>i. xs ! i) idx" by (simp add: pick_def c)
  show "length (fst (pick ch xs k g)) = k" by (simp add: p v)
  show "set (fst (pick ch xs k g)) \<subseteq> set xs" using v(3) by (auto simp add: p)
  have "map fst (map (\<lambda>i. xs ! i) idx) = map (\<lambda>i. map fst xs ! i) idx" using v(3) by simp
  moreover have "inj_on (\<lambda>i. map fst xs ! i) (set idx)"
    using assms(2) v(3) by (intro inj_on_nth) simp_all
  ultimately show "distinct (map fst (fst (pick ch xs k g)))"
    using v(2) by (simp add: p distinct_map del: map_map)
qed

lemma feedback_disjoint:
  assumes "x \<in> set (feedback_samples self)" "y \<in> set (no_feedback_samples self)"
  shows "fst x \<noteq> fst y"
proof
  assume eq: "fst x = fst y"
  from assms have mem: "x \<in> set (tagged self)" "y \<in> set (tagged self)"
    and px: "user_feedback (snd x) \<noteq> None" and py: "user_feedback (snd y) = None"
    by (auto simp add: feedback_samples_def no_feedback_samples_def)
  have "inj_on fst (set (tagged self))" using distinct_tagged [of self] by (simp add: distinct_map)
  with mem eq have "x = y" by (meson inj_onD)
  with px py show False by simp
qed

text \<open>
  C3, as the code has it.  With fewer samples in the store than \<^verbatim>\<open>batch_size\<close>, \<^verbatim>\<open>sample\<close>
  returns all stored samples.  Otherwise it returns samples from different positions of the
  store (no duplicates within one call): \<^verbatim>\<open>min(int(batch_size * 0.7), F)\<close> of them from
  the \<open>F\<close> samples with user feedback, and \<^verbatim>\<open>min(batch_size - feedback_count, N)\<close> from the
  \<open>N\<close> samples without.  A shortfall of the feedback subset is thus taken from the
  no-feedback subset, a shortfall of the no-feedback subset is not made up, and the number
  of samples returned is at most \<^verbatim>\<open>batch_size\<close>.  The random choice is assumed to keep its
  contract, and \<^verbatim>\<open>batch_size\<close> to be convertible to a float.
\<close>

theorem sample_selection:
  assumes contract: "\<And>g n k. k \<le> n \<Longrightarrow> valid_choice n k (fst (ch g n k))"
    and quota: "int_times_0_7 batch_size = Inr quota"
  shows "(int (length (buffer self)) < batch_size \<longrightarrow>
            sample ch self batch_size g = Inr (buffer self, g))
       \<and> (batch_size \<le> int (length (buffer self)) \<longrightarrow>
            (\<exists>sel g'. sample_tagged ch self batch_size g = Inr (sel, g')
               \<and> sample ch self batch_size g = Inr (map snd sel, g')
               \<and> distinct (map fst sel)
               \<and> set sel \<subseteq> set (tagged self)
               \<and> length (filter (\<lambda>(k, s). user_feedback s \<noteq> None) sel)
                    = nat (min quota (int (length (feedback_samples self))))
               \<and> length (filter (\<lambda>(k, s). user_feedback s = None) sel)
                    = min (nat (batch_size - min quota (int (length (feedback_samples self)))))
                          (length (no_feedback_samples self))
               \<and> length sel \<le> nat batch_size))"
proof (intro conjI impI)
  assume "int (length (buffer self)) < batch_size"
  then show "sample ch self batch_size g = Inr (buffer self, g)"
    by (simp add: sample_def sample_tagged_def tagged_def)
next
  assume enough: "batch_size \<le> int (length (buffer self))"
  define F where "F = feedback_samples self"
  define N where "N = no_feedback_samples self"
  define fc where "fc = min quota (int (length F))"
  define nfc where "nfc = batch_size - fc"
  define r1 where "r1 = (if 0 < fc then pick ch F (nat fc) g else ([], g))"
  define r2 where "r2 = (if 0 < nfc \<and> N \<noteq> [] then pick ch N (nat (min nfc (int (length N)))) (snd r1)
                         else ([], snd r1))"
  have res: "sample_tagged ch self batch_size g = Inr (fst r1 @ fst r2, snd r2)"
    using enough
    by (simp add: sample_tagged_def quota Let_def case_prod_beta F_def N_def fc_def nfc_def r1_def r2_def)
  have l1: "length (fst r1) = nat fc" and s1: "set (fst r1) \<subseteq> set F" and d1: "distinct (map fst (fst r1))"
  proof -
    have v: "valid_choice (length F) (nat fc) (fst (ch g (length F) (nat fc)))"
      by (rule contract) (simp add: fc_def)
    have dF: "distinct (map fst F)" unfolding F_def by (rule distinct_feedback)
    show "length (fst r1) = nat fc" using pick_props(1) [where xs = F and k = "nat fc" and ch = ch and g = g, OF v dF] by (simp add: r1_def)
    show "set (fst r1) \<subseteq> set F" using pick_props(2) [where xs = F and k = "nat fc" and ch = ch and g = g, OF v dF] by (simp add: r1_def)
    show "distinct (map fst (fst r1))" using pick_props(3) [where xs = F and k = "nat fc" and ch = ch and g = g, OF v dF] by (simp add: r1_def)
  qed
  have l2: "length (fst r2) = min (nat nfc) (length N)" and s2: "set (fst r2) \<subseteq> set N"
    and d2: "distinct (map fst (fst r2))"
  proof -
    let ?k = "nat (min nfc (int (length N)))"
    have v: "valid_choice (length N) ?k (fst (ch (snd r1) (length N) ?k))"
      by (rule contract) simp
    have dN: "distinct (map fst N)" unfolding N_def by (rule distinct_no_feedback)
    show "length (fst r2) = min (nat nfc) (length N)" using pick_props(1) [where xs = N and k = "?k" and ch = ch and g = "snd r1", OF v dN] by (auto simp add: r2_def)
    show "set (fst r2) \<subseteq> set N" using pick_props(2) [where xs = N and k = "?k" and ch = ch and g = "snd r1", OF v dN] by (simp add: r2_def)
    show "distinct (map fst (fst r2))" using pick_props(3) [where xs = N and k = "?k" and ch = ch and g = "snd r1", OF v dN] by (simp add: r2_def)
  qed
  have disj: "set (map fst (fst r1)) \<inter> set (map fst (fst r2)) = {}"
    using s1 s2 feedback_disjoint [of _ self] unfolding F_def N_def by fastforce
  have f1: "filter (\<lambda>(k, s). user_feedback s \<noteq> None) (fst r1) = fst r1"
    and f2: "filter (\<lambda>(k, s). user_feedback s \<noteq> None) (fst r2) = []"
    and n1: "filter (\<lambda>(k, s). user_feedback s = None) (fst r1) = []"
    and n2: "filter (\<lambda>(k, s). user_feedback s = None) (fst r2) = fst r2"
    using s1 s2 by (auto simp add: F_def N_def feedback_samples_def no_feedback_samples_def filter_id_conv filter_empty_conv)
  have sub: "set (fst r1 @ fst r2) \<subseteq> set (tagged self)"
    using s1 s2 by (auto simp add: F_def N_def feedback_samples_def no_feedback_samples_def)
  have len: "length (fst r1 @ fst r2) \<le> nat batch_size"
    using int_times_0_7_abs [OF quota] l1 l2 by (auto simp add: fc_def nfc_def min_def)
  show "\<exists>sel g'. sample_tagged ch self batch_size g = Inr (sel, g')
               \<and> sample ch self batch_size g = Inr (map snd sel, g')
               \<and> distinct (map fst sel)
               \<and> set sel \<subseteq> set (tagged self)
               \<and> length (filter (\<lambda>(k, s). user_feedback s \<noteq> None) sel)
                    = nat (min quota (int (length (feedback_samples self))))
               \<and> length (filter (\<lambda>(k, s). user_feedback s = None) sel)
                    = min (nat (batch_size - min quota (int (length (feedback_samples self)))))
                          (length (no_feedback_samples self))
               \<and> length sel \<le> nat batch_size"
  proof (intro exI conjI)
    show "sample_tagged ch self batch_size g = Inr (fst r1 @ fst r2, snd r2)" by (rule res)
    show "sample ch self batch_size g = Inr (map snd (fst r1 @ fst r2), snd r2)" by (simp add: sample_def res)
    show "distinct (map fst (fst r1 @ fst r2))" using d1 d2 disj by simp
    show "set (fst r1 @ fst r2) \<subseteq> set (tagged self)" by (rule sub)
    show "length (filter (\<lambda>(k, s). user_feedback s \<noteq> None) (fst r1 @ fst r2))
            = nat (min quota (int (length (feedback_samples self))))"
      unfolding filter_append f1 f2 by (simp only: append_Nil2 l1 fc_def F_def)
    show "length (filter (\<lambda>(k, s). user_feedback s = None) (fst r1 @ fst r2))
            = min (nat (batch_size - min quota (int (length (feedback_samples self)))))
                  (length (no_feedback_samples self))"
      unfolding filter_append n1 n2 by (simp only: append_Nil l2 nfc_def fc_def F_def N_def)
    show "length (fst r1 @ fst r2) \<le> nat batch_size" by (rule len)
  qed
qed

lemma example_choice_contract: "k \<le> n \<Longrightarrow> valid_choice n k (fst (choice example_torch g n k))"
  by (simp add: example_torch_def valid_choice_def list_all_iff)

lemma mixed_buffer_eq:
  "buffer mixed_buffer =
     [\<lparr>image = (), sm_prediction = 1, sm_confidence = 6 / 10, ground_truth = Some 1,
        user_feedback = Some 1, timestamp = 0\<rparr>,
      \<lparr>image = (), sm_prediction = 0, sm_confidence = 7 / 10, ground_truth = None,
        user_feedback = None, timestamp = 1\<rparr>,
      \<lparr>image = (), sm_prediction = 0, sm_confidence = 9 / 10, ground_truth = Some 0,
        user_feedback = Some 0, timestamp = 2\<rparr>]"
  by (simp add: mixed_buffer_def add_def new_buffer_def deque_append_def)

lemma fed_buffer_eq:
  "buffer fed_buffer =
     [\<lparr>image = (), sm_prediction = 1, sm_confidence = 6 / 10, ground_truth = Some 1,
        user_feedback = Some 1, timestamp = 0\<rparr>,
      \<lparr>image = (), sm_prediction = 0, sm_confidence = 7 / 10, ground_truth = Some 0,
        user_feedback = Some 0, timestamp = 1\<rparr>]"
  by (simp add: fed_buffer_def add_def new_buffer_def deque_append_def)

theorem sample_selection_witness:
  "valid_choice 2 1 (fst (choice example_torch () 2 1))
   \<and> int_times_0_7 2 = Inr 1
   \<and> int (length (buffer mixed_buffer)) < 5
   \<and> sample (choice example_torch) mixed_buffer 5 () = Inr (buffer mixed_buffer, ())
   \<and> 2 \<le> int (length (buffer mixed_buffer))
   \<and> (\<exists>sel g'. sample_tagged (choice example_torch) mixed_buffer 2 () = Inr (sel, g')
         \<and> distinct (map fst sel)
         \<and> length (filter (\<lambda>(k, s). user_feedback s \<noteq> None) sel) = 1
         \<and> length sel \<le> 2)"
proof -
  obtain q5 where q5: "int_times_0_7 5 = Inr q5" using int_times_0_7_small [of 5] by simp
  have len: "length (buffer mixed_buffer) = 3" by (simp add: mixed_buffer_eq)
  have fb: "length (feedback_samples mixed_buffer) = 2"
    by (simp add: feedback_samples_def tagged_def mixed_buffer_eq)
  from sample_selection [of "choice example_torch" 5 q5 mixed_buffer "()", OF example_choice_contract q5]
  have a: "sample (choice example_torch) mixed_buffer 5 () = Inr (buffer mixed_buffer, ())"
    by (simp add: len)
  from sample_selection [of "choice example_torch" 2 1 mixed_buffer "()", OF example_choice_contract quota_of_2]
  have b: "\<exists>sel g'. sample_tagged (choice example_torch) mixed_buffer 2 () = Inr (sel, g')
         \<and> distinct (map fst sel)
         \<and> length (filter (\<lambda>(k, s). user_feedback s \<noteq> None) sel) = 1
         \<and> length sel \<le> 2"
    unfolding len fb by auto
  from a b quota_of_2 len example_choice_contract show ?thesis by simp
qed

text \<open>
  The claim of C3 that a store with at least \<^verbatim>\<open>batch_size\<close> samples yields exactly
  \<^verbatim>\<open>batch_size\<close> samples fails: from a store of two samples that both carry user
  feedback, a batch of two is asked for and one sample is returned.
\<close>

theorem sample_short_counterexample:
  "2 \<le> int (length (buffer fed_buffer))
   \<and> map_sum id (length \<circ> fst) (sample (choice example_torch) fed_buffer 2 ()) = Inr 1"
  by (simp add: sample_def sample_tagged_def quota_of_2 feedback_samples_def no_feedback_samples_def
        tagged_def pick_def example_torch_def Let_def fed_buffer_eq)

section \<open>Properties of the frequency features\<close>

lemma length_pad_or_truncate: "length (pad_or_truncate fs) = 256"
  by (simp add: pad_or_truncate_def Let_def)

lemma pad_or_truncate_short:
  "length fs \<le> 256 \<Longrightarrow> pad_or_truncate fs = fs @ replicate (256 - length fs) 0"
  by (simp add: pad_or_truncate_def Let_def)

lemma entries_nonempty: "0 < rows m \<Longrightarrow> 0 < cols m \<Longrightarrow> entries m \<noteq> []"
  by (cases "rows m"; cases "cols m") (simp_all add: entries_def upt_conv_Cons del: upt_Suc)

lemma band_features_total: "\<exists>fs. band_features m band = Inr fs \<and> length fs = 4"
  by (simp add: band_features_def np_max_def np_percentile_def Let_def)

lemma band_features_empty:
  "masked m (\<lambda>i j. fst band \<le> distances m i j \<and> distances m i j < snd band) = []
     \<Longrightarrow> band_features m band = Inr [0, 0, 0, 0]"
  by (simp add: band_features_def)

lemma bands_loop_total:
  "\<exists>fs. bands_loop m bands features = Inr fs \<and> length fs = length features + 4 * length bands"
proof (induction bands arbitrary: features)
  case Nil
  then show ?case by simp
next
  case (Cons band bands)
  obtain f where f: "band_features m band = Inr f" "length f = 4"
    using band_features_total by blast
  from Cons.IH [of "features @ f"] f show ?case by auto
qed

lemma overall_features_total:
  "entries m \<noteq> [] \<Longrightarrow> \<exists>fs. overall_features m = Inr fs \<and> length fs = 5"
  by (simp add: overall_features_def np_max_def np_percentile_def Let_def)

lemma directional_features_total:
  "0 < rows m \<Longrightarrow> 0 < cols m \<Longrightarrow> \<exists>fs. directional_features m = Inr fs \<and> length fs = 4"
  by (simp add: directional_features_def Let_def)

lemma length_high_freq_features: "length (high_freq_features m) = 3"
  by (simp add: high_freq_features_def Let_def)

lemma high_freq_features_empty:
  "masked m (\<lambda>i j. 80 < distances m i j) = [] \<Longrightarrow> high_freq_features m = [0, 0, 0]"
  by (simp add: high_freq_features_def)

lemma extract_frequency_stats_total:
  assumes "0 < rows m" "0 < cols m"
  shows "\<exists>fs. extract_frequency_stats m = Inr fs \<and> length fs = 256"
proof -
  obtain f1 where f1: "bands_loop m [(0, 20), (20, 50), (50, 100)] [] = Inr f1"
    using bands_loop_total by blast
  obtain f2 where f2: "overall_features m = Inr f2"
    using overall_features_total [OF entries_nonempty [OF assms]] by blast
  obtain f3 where f3: "directional_features m = Inr f3"
    using directional_features_total [OF assms] by blast
  show ?thesis unfolding extract_frequency_stats_def f1 f2 f3 by (simp add: length_pad_or_truncate)
qed

lemma extract_frequency_stats_empty:
  "rows m = 0 \<or> cols m = 0 \<Longrightarrow> extract_frequency_stats m = Inl ValueError"
proof -
  assume e: "rows m = 0 \<or> cols m = 0"
  then have "entries m = []" by (auto simp add: entries_def)
  then have o: "overall_features m = Inl ValueError" by (simp add: overall_features_def np_max_def)
  obtain f1 where f1: "bands_loop m [(0, 20), (20, 50), (50, 100)] [] = Inr f1"
    using bands_loop_total by blast
  show ?thesis unfolding extract_frequency_stats_def f1 o by simp
qed

lemma block_features_total: "\<exists>fs. block_features dct img i j = Inr fs"
  by (simp add: block_features_def np_max_def Let_def)

lemma inner_loop_total: "\<exists>fs. inner_loop dct img i js features = Inr fs"
proof (induction js arbitrary: features)
  case Nil
  then show ?case by simp
next
  case (Cons j js)
  obtain f where f: "block_features dct img i j = Inr f" using block_features_total by blast
  from Cons.IH [of "features @ f"] f show ?case by auto
qed

lemma outer_loop_total: "\<exists>fs. outer_loop dct img is js features = Inr fs"
proof (induction "is" arbitrary: features)
  case Nil
  then show ?case by simp
next
  case (Cons i "is")
  obtain f where f: "inner_loop dct img i js features = Inr f" using inner_loop_total by blast
  from Cons.IH [of f] f show ?case by auto
qed

text \<open>
  C2.  For every magnitude spectrum with at least one row and one column,
  \<^verbatim>\<open>_extract_frequency_stats\<close> returns, without raising, a vector of exactly 256 entries; for
  every image, whatever its height and width, and whatever the block transform yields,
  \<^verbatim>\<open>_extract_dct_block_features\<close> returns, without raising, a vector of exactly 256
  entries.  Bands and regions without entries contribute zeros (lemmas
  \<open>band_features_empty\<close> and \<open>high_freq_features_empty\<close>), and a shorter list of
  statistics is followed by zeros (lemma \<open>pad_or_truncate_short\<close>).
\<close>

theorem feature_vectors_have_256_entries:
  "(0 < rows magnitude_spectrum \<and> 0 < cols magnitude_spectrum \<longrightarrow>
      (\<exists>fs. extract_frequency_stats magnitude_spectrum = Inr fs \<and> length fs = 256))
   \<and> (\<exists>fs. extract_dct_block_features dct img = Inr fs \<and> length fs = 256)"
proof (intro conjI impI)
  assume "0 < rows magnitude_spectrum \<and> 0 < cols magnitude_spectrum"
  then show "\<exists>fs. extract_frequency_stats magnitude_spectrum = Inr fs \<and> length fs = 256"
    using extract_frequency_stats_total by blast
next
  obtain f where "outer_loop dct img (block_starts (rows img)) (block_starts (cols img)) [] = Inr f"
    using outer_loop_total by blast
  then show "\<exists>fs. extract_dct_block_features dct img = Inr fs \<and> length fs = 256"
    by (simp add: extract_dct_block_features_def length_pad_or_truncate)
qed

theorem feature_vectors_have_256_entries_witness:
  "0 < rows uniform_spectrum \<and> 0 < cols uniform_spectrum
   \<and> (\<exists>fs. extract_frequency_stats uniform_spectrum = Inr fs \<and> length fs = 256)
   \<and> (\<exists>fs. extract_dct_block_features constant_block_dct grey_image = Inr fs \<and> length fs = 256)"
  using feature_vectors_have_256_entries [of uniform_spectrum constant_block_dct grey_image]
  by (simp add: uniform_spectrum_def)

end
